theory Spec2Isabelle
  imports Complex_Main
begin

section \<open>JavaScript values and string built-ins\<close>

text \<open>
  Strings are lists of characters; a character stands for one UTF-16 code unit below 256.
  Numbers are exact rationals (every finite double is one); \<open>JNaN\<close> is the value
  \<open>NaN\<close>. \<open>JUndefined\<close> is \<open>undefined\<close>.
\<close>

datatype jsval =
    JUndefined
  | JNull
  | JBool bool
  | JNum rat
  | JNaN
  | JStr string
  | JArr "jsval list"
  | JObj "(string \<times> jsval) list"

text \<open>ToBoolean: what \<open>!x\<close>, \<open>x || y\<close> and \<open>x ? a : b\<close> test.\<close>

fun truthy :: "jsval \<Rightarrow> bool" where
  "truthy JUndefined = False"
| "truthy JNull = False"
| "truthy (JBool b) = b"
| "truthy (JNum r) = (r \<noteq> 0)"
| "truthy JNaN = False"
| "truthy (JStr s) = (s \<noteq> [])"
| "truthy (JArr xs) = True"
| "truthy (JObj kvs) = True"

text \<open>The white space of \<open>String.prototype.trim\<close>, of \<open>parseInt\<close> and of the
  regular expression class \<open>\s\<close>, among the code units below 256: TAB, LF, VT, FF, CR,
  SPACE and NBSP.\<close>

definition isWhiteSpace :: "char \<Rightarrow> bool" where
  "isWhiteSpace c \<longleftrightarrow> c \<in> set [CHR 0x09, CHR 0x0A, CHR 0x0B, CHR 0x0C, CHR 0x0D, CHR 0x20, CHR 0xA0]"

definition trim :: "string \<Rightarrow> string" where
  "trim s = rev (dropWhile isWhiteSpace (rev (dropWhile isWhiteSpace s)))"

text \<open>The value of a digit character in radices up to 36.\<close>

definition digitValue :: "char \<Rightarrow> nat option" where
  "digitValue c =
     (let n = (of_char c :: nat)
      in if 48 \<le> n \<and> n \<le> 57 then Some (n - 48)
         else if 97 \<le> n \<and> n \<le> 122 then Some (n - 87)
         else if 65 \<le> n \<and> n \<le> 90 then Some (n - 55)
         else None)"

definition isRadixDigit :: "nat \<Rightarrow> char \<Rightarrow> bool" where
  "isRadixDigit R c = (case digitValue c of None \<Rightarrow> False | Some d \<Rightarrow> d < R)"

definition mathInt :: "nat \<Rightarrow> string \<Rightarrow> nat" where
  "mathInt R Z = foldl (\<lambda>a c. a * R + (case digitValue c of None \<Rightarrow> 0 | Some d \<Rightarrow> d)) 0 Z"

text \<open>
  \<open>parseInt(string, radix)\<close> after ECMA-262: leading white space is skipped, one sign
  is read, a radix that is absent (\<open>None\<close>) or 16 lets a \<open>0x\<close> prefix select
  radix 16, the longest prefix of digits of the radix is the number, and no digit at all
  is \<open>NaN\<close> (\<open>None\<close>). The result is the exact integer.
\<close>

definition parseInt :: "string \<Rightarrow> nat option \<Rightarrow> int option" where
  "parseInt str radix =
     (let S = dropWhile isWhiteSpace str;
          neg = (take 1 S = ''-'');
          S1 = (if take 1 S = ''+'' \<or> take 1 S = ''-'' then drop 1 S else S);
          R0 = (case radix of None \<Rightarrow> 10 | Some r \<Rightarrow> if r = 0 then 10 else r);
          stripPrefix = (R0 = 16 \<or> radix = None \<or> radix = Some 0);
          hex = (stripPrefix \<and> (take 2 S1 = ''0x'' \<or> take 2 S1 = ''0X''));
          R = (if hex then 16 else R0);
          S2 = (if hex then drop 2 S1 else S1);
          Z = takeWhile (isRadixDigit R) S2
      in if R < 2 \<or> 36 < R then None
         else if Z = [] then None
         else Some ((if neg then - 1 else 1) * int (mathInt R Z)))"

text \<open>\<open>Math.max\<close> and \<open>Math.min\<close> of two numbers: \<open>NaN\<close> if either is.\<close>

definition Math_max :: "int option \<Rightarrow> int option \<Rightarrow> int option" where
  "Math_max a b = (case (a, b) of (Some x, Some y) \<Rightarrow> Some (max x y) | _ \<Rightarrow> None)"

definition Math_min :: "int option \<Rightarrow> int option \<Rightarrow> int option" where
  "Math_min a b = (case (a, b) of (Some x, Some y) \<Rightarrow> Some (min x y) | _ \<Rightarrow> None)"


section \<open>Surface queries (routes/api/updates/breaking.js, pinned.js)\<close>

subsection \<open>Page and limit\<close>

text \<open>\<open>x || d\<close> for a query parameter \<open>x\<close> that is a string or absent.\<close>

definition or_default :: "string option \<Rightarrow> string \<Rightarrow> string" where
  "or_default x d = (case x of None \<Rightarrow> d | Some s \<Rightarrow> if s = [] then d else s)"

text \<open>
  \<open>const page = Math.max(1, parseInt(req.query.page || '1'));\<close>
  \<open>const limit = Math.min(100, Math.max(1, parseInt(req.query.limit || '50')));\<close>
  \<open>const offset = (page - 1) * limit;\<close>
  The same three lines stand in both handlers.
\<close>

definition surface_page :: "string option \<Rightarrow> int option" where
  "surface_page q_page = Math_max (Some 1) (parseInt (or_default q_page ''1'') None)"

definition surface_limit :: "string option \<Rightarrow> int option" where
  "surface_limit q_limit =
     Math_min (Some 100) (Math_max (Some 1) (parseInt (or_default q_limit ''50'') None))"

definition surface_offset :: "int option \<Rightarrow> int option \<Rightarrow> int option" where
  "surface_offset page limit =
     (case (page, limit) of (Some p, Some l) \<Rightarrow> Some ((p - 1) * l) | _ \<Rightarrow> None)"

text \<open>
  The response of a surface: the HTTP status, \<open>success\<close>, the rows, and of the
  pagination block \<open>current_page\<close>, \<open>per_page\<close> and \<open>total_items\<close>
  (\<open>total_pages\<close>, \<open>has_next\<close> and \<open>has_prev\<close> are derived from these and
  left out). A number is \<open>None\<close> when it is \<open>NaN\<close>.
\<close>

record 'a surface_response =
  sr_http :: nat
  sr_success :: bool
  sr_news :: "'a list"
  sr_current_page :: "int option"
  sr_per_page :: "int option"
  sr_total_items :: "int option"

text \<open>
  The two queries of a surface are the datastore's: \<open>run limit offset\<close> is
  \<open>None\<close> when \<open>pool.query\<close> rejects, and otherwise the \<open>total\<close> column of
  the count query (absent when it returned no row) and the rows of the page.
  \<open>breaking_get\<close> is \<open>router.get('/')\<close> of breaking.js.
\<close>

definition breaking_get ::
  "(int option \<Rightarrow> int option \<Rightarrow> (string option \<times> 'a list) option) \<Rightarrow>
   string option \<Rightarrow> string option \<Rightarrow> 'a surface_response" where
  "breaking_get run q_page q_limit =
     (let page = surface_page q_page;
          limit = surface_limit q_limit;
          offset = surface_offset page limit
      in case run limit offset of
           None \<Rightarrow>
             \<lparr>sr_http = 500, sr_success = False, sr_news = [], sr_current_page = Some 1,
              sr_per_page = Some 50, sr_total_items = Some 0\<rparr>
         | Some (cnt, rows) \<Rightarrow>
             \<lparr>sr_http = 200, sr_success = True, sr_news = rows, sr_current_page = page,
              sr_per_page = limit, sr_total_items = parseInt (or_default cnt ''0'') None\<rparr>)"

text \<open>
  \<open>pinned_get\<close> is \<open>router.get('/')\<close> of pinned.js: the same, with the optional
  category slug handed to both queries.
\<close>

definition pinned_get ::
  "(string option \<Rightarrow> int option \<Rightarrow> int option \<Rightarrow> (string option \<times> 'a list) option) \<Rightarrow>
   string option \<Rightarrow> string option \<Rightarrow> string option \<Rightarrow> 'a surface_response" where
  "pinned_get run q_page q_limit q_category =
     (let page = surface_page q_page;
          limit = surface_limit q_limit;
          offset = surface_offset page limit;
          categorySlug = (case q_category of None \<Rightarrow> None | Some s \<Rightarrow> if s = [] then None else Some s)
      in case run categorySlug limit offset of
           None \<Rightarrow>
             \<lparr>sr_http = 500, sr_success = False, sr_news = [], sr_current_page = Some 1,
              sr_per_page = Some 50, sr_total_items = Some 0\<rparr>
         | Some (cnt, rows) \<Rightarrow>
             \<lparr>sr_http = 200, sr_success = True, sr_news = rows, sr_current_page = page,
              sr_per_page = limit, sr_total_items = parseInt (or_default cnt ''0'') None\<rparr>)"

text \<open>
  A datastore that answers as PostgreSQL does on the parameters of \<open>LIMIT $1 OFFSET $2\<close>:
  a parameter that is not a number is rejected, any other request is answered (here with
  an empty page).
\<close>

definition empty_surface :: "int option \<Rightarrow> int option \<Rightarrow> (string option \<times> nat list) option" where
  "empty_surface limit offset =
     (if limit = None \<or> offset = None then None else Some (Some ''0'', []))"

subsection \<open>Trending score\<close>

text \<open>
  The \<open>trending_score\<close> column of both surface queries. A counter is \<open>None\<close> when
  the column is NULL (\<open>COALESCE(n.views, 0)\<close>); \<open>hours\<close> is
  \<open>EXTRACT(EPOCH FROM (NOW() - n.published_at)) / 3600\<close>, NULL when
  \<open>published_at\<close> is. A comparison with NULL is not true, so a NULL age falls to
  \<open>ELSE 0.2\<close>.
\<close>

definition coalesce0 :: "int option \<Rightarrow> int" where
  "coalesce0 x = (case x of None \<Rightarrow> 0 | Some v \<Rightarrow> v)"

definition engagement :: "int option \<Rightarrow> int option \<Rightarrow> int option \<Rightarrow> int option \<Rightarrow> int" where
  "engagement views likes comments shares =
     coalesce0 views * 1 + coalesce0 likes * 5 + coalesce0 comments * 10 + coalesce0 shares * 15"

definition decay :: "rat option \<Rightarrow> rat" where
  "decay hours =
     (case hours of
        None \<Rightarrow> 2 / 10
      | Some h \<Rightarrow>
          if h < 1 then 3
          else if h < 3 then 2
          else if h < 6 then 15 / 10
          else if h < 12 then 12 / 10
          else if h < 24 then 1
          else if h < 48 then 5 / 10
          else 2 / 10)"

definition trending_score ::
  "int option \<Rightarrow> int option \<Rightarrow> int option \<Rightarrow> int option \<Rightarrow> rat option \<Rightarrow> rat" where
  "trending_score views likes comments shares hours =
     of_int (engagement views likes comments shares) * decay hours"


section \<open>Content formatter: quote extraction (routes/admin/categories.js)\<close>

text \<open>
  \<open>extractQuotes\<close> runs the regular expression
  \<^verbatim>\<open>/\[QUOTE(?:\s+sayer="([^"]*)")?\](.*?)\[\/QUOTE\]/gs\<close>
  over the raw body with \<open>exec\<close> until it finds no further match, and pushes for
  each match \<open>{text: match[2] ? match[2].trim() : '', sayer: match[1] || null,
  position: match.index || 0}\<close>.
\<close>

record quote =
  q_text :: string
  q_sayer :: "string option"
  q_position :: nat

text \<open>
  \<^verbatim>\<open>(.*?)\[\/QUOTE\]\<close> with the flag \<open>s\<close>: the lazy group takes every
  character, line ends included, up to the first \<^verbatim>\<open>[/QUOTE]\<close>. The result is
  the group and the text after the closing marker.
\<close>

fun until_close :: "string \<Rightarrow> (string \<times> string) option" where
  "until_close [] = None"
| "until_close (c # cs) =
     (if take 8 (c # cs) = ''[/QUOTE]'' then Some ([], drop 8 (c # cs))
      else case until_close cs of
             None \<Rightarrow> None
           | Some (body, rest) \<Rightarrow> Some (c # body, rest))"

text \<open>
  \<^verbatim>\<open>(?:\s+sayer="([^"]*)")?\]\<close>, read after \<^verbatim>\<open>[QUOTE\<close>. The optional
  group needs white space first and the other branch needs \<^verbatim>\<open>]\<close> first, so at
  most one of them matches; \<^verbatim>\<open>\s+\<close> and \<^verbatim>\<open>[^"]*\<close> are each followed by
  a character outside their class, so they take all they can. The result is the first
  group (absent when the optional group did not take part) and the text after
  \<^verbatim>\<open>]\<close>.
\<close>

definition quote_header :: "string \<Rightarrow> (string option \<times> string) option" where
  "quote_header s =
     (if take 1 s = '']'' then Some (None, drop 1 s)
      else
        let ws = takeWhile isWhiteSpace s;
            r = dropWhile isWhiteSpace s;
            name = takeWhile (\<lambda>c. c \<noteq> CHR 0x22) (drop 7 r);
            r2 = dropWhile (\<lambda>c. c \<noteq> CHR 0x22) (drop 7 r)
        in if ws \<noteq> [] \<and> take 7 r = ''sayer='' @ [CHR 0x22] \<and> take 2 r2 = [CHR 0x22, CHR '']'']
           then Some (Some name, drop 2 r2)
           else None)"

text \<open>A match of the whole expression at the start of \<open>s\<close>: both groups and the
  text after the match.\<close>

definition match_quote :: "string \<Rightarrow> (string option \<times> string \<times> string) option" where
  "match_quote s =
     (if take 6 s = ''[QUOTE'' then
        case quote_header (drop 6 s) of
          None \<Rightarrow> None
        | Some (sayer, r) \<Rightarrow>
            (case until_close r of
               None \<Rightarrow> None
             | Some (body, rest) \<Rightarrow> Some (sayer, body, rest))
      else None)"

text \<open>
  \<open>exec_from i s\<close> looks for the leftmost match in \<open>s\<close>, the text from index
  \<open>i\<close> on, and returns \<open>match.index\<close>, the two groups and the new
  \<open>lastIndex\<close> (the index after the match).
\<close>

fun exec_from :: "nat \<Rightarrow> string \<Rightarrow> (nat \<times> string option \<times> string \<times> nat) option" where
  "exec_from i [] = None"
| "exec_from i (c # cs) =
     (case match_quote (c # cs) of
        Some (sayer, body, rest) \<Rightarrow> Some (i, sayer, body, i + (length (c # cs) - length rest))
      | None \<Rightarrow> exec_from (Suc i) cs)"

definition quoteRegex_exec ::
  "string \<Rightarrow> nat \<Rightarrow> (nat \<times> string option \<times> string \<times> nat) option" where
  "quoteRegex_exec content lastIndex =
     (if length content < lastIndex then None else exec_from lastIndex (drop lastIndex content))"

lemma until_close_splits:
  "until_close s = Some (body, rest) \<Longrightarrow> s = body @ ''[/QUOTE]'' @ rest"
proof (induction s arbitrary: body rest)
  case Nil
  then show ?case by simp
next
  case (Cons c cs)
  show ?case
  proof (cases "take 8 (c # cs) = ''[/QUOTE]''")
    case True
    with Cons.prems have b: "body = []" and r: "rest = drop 8 (c # cs)" by simp_all
    have "c # cs = take 8 (c # cs) @ drop 8 (c # cs)" by (simp only: append_take_drop_id)
    with True b r show ?thesis by simp
  next
    case False
    with Cons.prems obtain b' where u: "until_close cs = Some (b', rest)" and b: "body = c # b'"
      by (auto split: option.splits)
    from Cons.IH[OF u] b show ?thesis by simp
  qed
qed

lemma quote_header_splits:
  "quote_header s = Some (sayer, r) \<Longrightarrow> \<exists>hdr. s = hdr @ '']'' @ r"
proof (cases "take 1 s = '']''")
  case True
  assume "quote_header s = Some (sayer, r)"
  with True have r: "r = drop 1 s" by (simp add: quote_header_def)
  have "s = take 1 s @ drop 1 s" by (simp only: append_take_drop_id)
  with True r have "s = [] @ '']'' @ r" by simp
  then show ?thesis by blast
next
  case False
  assume h: "quote_header s = Some (sayer, r)"
  define ws where "ws = takeWhile isWhiteSpace s"
  define r1 where "r1 = dropWhile isWhiteSpace s"
  define name where "name = takeWhile (\<lambda>c. c \<noteq> CHR 0x22) (drop 7 r1)"
  define r2 where "r2 = dropWhile (\<lambda>c. c \<noteq> CHR 0x22) (drop 7 r1)"
  from h False have r: "r = drop 2 r2" and t: "take 2 r2 = [CHR 0x22, CHR '']'']"
    by (auto simp: quote_header_def Let_def r1_def r2_def split: if_splits)
  have "s = ws @ r1" by (simp add: ws_def r1_def)
  moreover have "r1 = take 7 r1 @ drop 7 r1" by simp
  moreover have "drop 7 r1 = name @ r2" by (simp add: name_def r2_def)
  moreover have "r2 = take 2 r2 @ r" by (simp add: r)
  ultimately have "s = ws @ take 7 r1 @ name @ take 2 r2 @ r"
    by (metis append.assoc)
  with t have "s = (ws @ take 7 r1 @ name @ [CHR 0x22]) @ '']'' @ r" by simp
  then show ?thesis by blast
qed

lemma match_quote_splits:
  assumes "match_quote s = Some (sayer, body, rest)"
  shows "\<exists>hdr. s = ''[QUOTE'' @ hdr @ '']'' @ body @ ''[/QUOTE]'' @ rest"
proof -
  from assms have t: "take 6 s = ''[QUOTE''"
    by (auto simp: match_quote_def split: if_splits)
  from assms t obtain r where h: "quote_header (drop 6 s) = Some (sayer, r)"
    and u: "until_close r = Some (body, rest)"
    by (auto simp: match_quote_def split: option.splits)
  from quote_header_splits[OF h] obtain hdr where hdr: "drop 6 s = hdr @ '']'' @ r" by blast
  have "s = take 6 s @ drop 6 s" by (simp only: append_take_drop_id)
  with t hdr until_close_splits[OF u] have "s = ''[QUOTE'' @ hdr @ '']'' @ body @ ''[/QUOTE]'' @ rest"
    by simp
  then show ?thesis by blast
qed

lemma exec_from_splits:
  "exec_from i s = Some (idx, sayer, body, nxt) \<Longrightarrow>
     \<exists>pre hdr rest. s = pre @ ''[QUOTE'' @ hdr @ '']'' @ body @ ''[/QUOTE]'' @ rest \<and>
       idx = i + length pre \<and> nxt = idx + 15 + length hdr + length body"
proof (induction i s rule: exec_from.induct)
  case (1 i)
  then show ?case by simp
next
  case (2 i c cs)
  show ?case
  proof (cases "match_quote (c # cs)")
    case None
    with "2.prems" have "exec_from (Suc i) cs = Some (idx, sayer, body, nxt)" by simp
    from "2.IH"[OF None this] obtain pre hdr rest where
      "cs = pre @ ''[QUOTE'' @ hdr @ '']'' @ body @ ''[/QUOTE]'' @ rest"
      "idx = Suc i + length pre" "nxt = idx + 15 + length hdr + length body"
      by blast
    then have "c # cs = (c # pre) @ ''[QUOTE'' @ hdr @ '']'' @ body @ ''[/QUOTE]'' @ rest \<and>
       idx = i + length (c # pre) \<and> nxt = idx + 15 + length hdr + length body"
      by simp
    then show ?thesis by blast
  next
    case (Some m)
    obtain sy bd rest where m: "m = (sy, bd, rest)" by (cases m) auto
    with Some "2.prems" have eqs: "idx = i" "sy = sayer" "bd = body"
      "nxt = i + (length (c # cs) - length rest)" by simp_all
    from match_quote_splits[of "c # cs" sy bd rest] Some m obtain hdr where
      hdr: "c # cs = ''[QUOTE'' @ hdr @ '']'' @ bd @ ''[/QUOTE]'' @ rest" by auto
    have "length (c # cs) = 15 + length hdr + length bd + length rest"
      by (subst hdr) simp
    with eqs hdr have "c # cs = [] @ ''[QUOTE'' @ hdr @ '']'' @ body @ ''[/QUOTE]'' @ rest \<and>
       idx = i + length ([]::string) \<and> nxt = idx + 15 + length hdr + length body"
      by simp
    then show ?thesis by blast
  qed
qed

lemma quoteRegex_exec_splits:
  assumes "quoteRegex_exec content lastIndex = Some (idx, sayer, body, nxt)"
  shows "\<exists>hdr rest. drop idx content = ''[QUOTE'' @ hdr @ '']'' @ body @ ''[/QUOTE]'' @ rest \<and>
           lastIndex \<le> idx \<and> nxt = idx + 15 + length hdr + length body \<and> nxt \<le> length content"
proof -
  from assms have le: "lastIndex \<le> length content"
    and e: "exec_from lastIndex (drop lastIndex content) = Some (idx, sayer, body, nxt)"
    by (auto simp: quoteRegex_exec_def split: if_splits)
  from exec_from_splits[OF e] obtain pre hdr rest where
    s: "drop lastIndex content = pre @ ''[QUOTE'' @ hdr @ '']'' @ body @ ''[/QUOTE]'' @ rest"
    and idx: "idx = lastIndex + length pre"
    and nxt: "nxt = idx + 15 + length hdr + length body"
    by blast
  have "drop idx content = drop (length pre) (drop lastIndex content)"
    by (simp add: idx add.commute)
  with s have d: "drop idx content = ''[QUOTE'' @ hdr @ '']'' @ body @ ''[/QUOTE]'' @ rest" by simp
  have "length (drop lastIndex content) = length pre + 15 + length hdr + length body + length rest"
    by (subst s) simp
  with le idx nxt have "nxt \<le> length content" by simp
  with d idx nxt show ?thesis by auto
qed

lemma quoteRegex_exec_advances:
  "quoteRegex_exec content lastIndex = Some (idx, sayer, body, nxt) \<Longrightarrow>
     lastIndex < nxt \<and> nxt \<le> length content"
  using quoteRegex_exec_splits[of content lastIndex idx sayer body nxt] by auto

text \<open>The loop \<open>while ((match = quoteRegex.exec(content)) !== null)\<close>; every match
  is at least 15 characters long, so \<open>lastIndex\<close> grows and the loop ends.\<close>

function extract_loop :: "string \<Rightarrow> nat \<Rightarrow> quote list" where
  "extract_loop content lastIndex =
     (case quoteRegex_exec content lastIndex of
        None \<Rightarrow> []
      | Some (idx, sayer, body, nxt) \<Rightarrow>
          \<lparr>q_text = (if body \<noteq> [] then trim body else []),
           q_sayer = (case sayer of None \<Rightarrow> None | Some n \<Rightarrow> if n \<noteq> [] then Some n else None),
           q_position = idx\<rparr>
          # extract_loop content nxt)"
  by pat_completeness auto
termination
proof (relation "measure (\<lambda>(content, lastIndex). Suc (length content) - lastIndex)")
  show "wf (measure (\<lambda>(content, lastIndex). Suc (length content) - lastIndex))" by simp
next
  fix content :: string and lastIndex x2 x y xa ya xb yb
  assume "quoteRegex_exec content lastIndex = Some x2" "(x, y) = x2" "(xa, ya) = y" "(xb, yb) = ya"
  then have "quoteRegex_exec content lastIndex = Some (x, xa, xb, yb)" by auto
  from quoteRegex_exec_advances[OF this]
  show "((content, yb), content, lastIndex)
       \<in> measure (\<lambda>(content, lastIndex). Suc (length content) - lastIndex)" by auto
qed

declare extract_loop.simps [simp del]

definition extractQuotes :: "string \<Rightarrow> quote list" where
  "extractQuotes content = (if content = [] then [] else extract_loop content 0)"


section \<open>Request values and the helpers of routes/admin/categories.js\<close>

text \<open>
  A field of a multipart body is a string, or absent (\<open>None\<close> is \<open>undefined\<close>).
  \<open>!x\<close> of such a field holds when it is absent or empty.
\<close>

definition falsy :: "string option \<Rightarrow> bool" where
  "falsy x \<longleftrightarrow> x = None \<or> x = Some []"

text \<open>\<open>x || y\<close> on values.\<close>

definition js_or :: "jsval \<Rightarrow> jsval \<Rightarrow> jsval" where
  "js_or x y = (if truthy x then x else y)"

text \<open>
  \<open>x.name\<close> for a value that is neither \<open>null\<close> nor \<open>undefined\<close>: the entry of
  an object, and \<open>undefined\<close> for the names read here on a number, a string, a
  boolean or an array. On \<open>null\<close> and \<open>undefined\<close> the access throws; the callers
  test \<open>nullish\<close> first.
\<close>

definition nullish :: "jsval \<Rightarrow> bool" where
  "nullish v \<longleftrightarrow> v = JNull \<or> v = JUndefined"

definition get_prop :: "jsval \<Rightarrow> string \<Rightarrow> jsval" where
  "get_prop v name =
     (case v of
        JObj kvs \<Rightarrow> (case map_of kvs name of None \<Rightarrow> JUndefined | Some x \<Rightarrow> x)
      | _ \<Rightarrow> JUndefined)"

text \<open>
  \<open>x === n\<close> and \<open>xs.includes(n)\<close> for a number \<open>n\<close> that is an integer: only
  the same number is equal to it.
\<close>

definition is_number :: "int \<Rightarrow> jsval \<Rightarrow> bool" where
  "is_number n x \<longleftrightarrow> x = JNum (of_int n)"

definition array_includes :: "jsval list \<Rightarrow> int \<Rightarrow> bool" where
  "array_includes xs n \<longleftrightarrow> list_ex (is_number n) xs"

text \<open>
  What a request handler is given besides the request: the role oracle of
  middleware/rolePermissions, \<open>JSON.parse\<close> (\<open>None\<close> when it throws), the clock
  (\<open>new Date()\<close>), the media ingestion of config/imagesUpload (\<open>None\<close> when it
  rejects), and three helpers of this file whose results are stored as they are and
  read by no property below: the slug, the reading time and the formatted body.
\<close>

record imgData =
  im_url :: string
  im_originalname :: string

record env =
  canPublishDirectly :: "string \<Rightarrow> bool"
  JSON_parse :: "string \<Rightarrow> jsval option"
  Date_now :: int
  processUploadedFiles :: "string list \<Rightarrow> imgData list option"
  generateSlug :: "string \<Rightarrow> string"
  calculateReadingTime :: "string \<Rightarrow> nat"
  processContentFormatting :: "string \<Rightarrow> string"

text \<open>
  \<open>safeJSON(input, fallback)\<close> on a body field. The branch
  \<open>typeof input !== 'string'\<close> is never taken by a field that is a string.
\<close>

definition safeJSON :: "env \<Rightarrow> string option \<Rightarrow> jsval \<Rightarrow> jsval" where
  "safeJSON e input fallback =
     (case input of
        None \<Rightarrow> fallback
      | Some s \<Rightarrow>
          if s = [] \<or> s = ''null'' \<or> s = ''undefined'' then fallback
          else (case JSON_parse e s of None \<Rightarrow> fallback | Some v \<Rightarrow> v))"

text \<open>\<open>parseIntSafe(val, fallback = 0)\<close>.\<close>

definition parseIntSafe :: "string option \<Rightarrow> int \<Rightarrow> int" where
  "parseIntSafe val fallback =
     (case val of
        None \<Rightarrow> fallback
      | Some s \<Rightarrow>
          if s = [] \<or> s = ''null'' \<or> s = ''undefined'' then fallback
          else (case parseInt s (Some 10) of None \<Rightarrow> fallback | Some n \<Rightarrow> n))"

section \<open>The datastore session\<close>

text \<open>
  \<open>await client.query(sql, params)\<close> either resolves with the rows and the row count
  or throws. A statement of the model is one SQL text of the sources with its
  parameters.
\<close>

datatype 'a completion = Normal 'a | Throw string

text \<open>
  The parameters \<open>$1 \<dots> $13\<close> of the \<open>UPDATE news\<close> of the update handler, and the
  \<open>$1 \<dots> $15\<close> of the \<open>INSERT INTO news\<close> of the create handler, which has the
  author and the publication time besides.
\<close>

record news_changes =
  v_title :: string
  v_slug :: string
  v_content :: string
  v_processed_content :: string
  v_excerpt :: string
  v_category_id :: int
  v_primary_category_id :: int
  v_priority :: string
  v_reading_time :: nat
  v_status :: string
  v_tags :: "string option"
  v_meta_description :: "string option"
  v_seo_keywords :: "string option"

record news_values =
  nv_fields :: news_changes
  nv_author_id :: int
  nv_published_at :: "int option"

text \<open>The parameters \<open>$2 \<dots> $9\<close> of \<open>INSERT INTO news_social_media\<close>.\<close>

record social_values =
  sv_platform :: jsval
  sv_post_type :: jsval
  sv_post_url :: string
  sv_display_order :: jsval
  sv_auto_embed :: bool
  sv_show_full_embed :: bool
  sv_is_featured :: jsval
  sv_caption :: jsval

text \<open>
  The parameters \<open>$2 \<dots> $6\<close> of \<open>INSERT INTO news_images\<close>. The parameters
  \<open>$7 \<dots> $13\<close> (width, height, file size, mime type, storage provider, provider id
  and the metadata text) are copied from the upload and left out.
\<close>

record image_values =
  iv_image_url :: string
  iv_image_caption :: jsval
  iv_alt_text :: jsval
  iv_display_order :: jsval
  iv_is_featured :: jsval

text \<open>The parameters of \<open>INSERT INTO admin_activity_log\<close>.\<close>

record log_values =
  lg_admin_id :: jsval
  lg_action :: string
  lg_target_type :: string
  lg_target_id :: jsval
  lg_details :: jsval
  lg_ip :: string

datatype stmt =
    BEGIN
  | COMMIT
  | ROLLBACK
  | INSERT_news news_values
  | UPDATE_news news_changes jsval
  | INSERT_news_categories jsval jsval bool
  | UPDATE_quotes_data "quote list" jsval
  | INSERT_news_social_media jsval social_values
  | INSERT_news_images jsval image_values
  | UPDATE_image_url string jsval
  | INSERT_admin_activity_log log_values
  | SELECT_news jsval
  | SELECT_news_images jsval
  | DELETE_FROM string jsval

text \<open>
  A session is any state machine that answers statements: the handlers are written
  against this interface, as the sources are written against \<open>client\<close>.
\<close>

type_synonym 's client = "stmt \<Rightarrow> 's \<Rightarrow> (jsval list \<times> nat) completion \<times> 's"

text \<open>
  A computation in a session: it ends normally with a value or by throwing, and
  leaves the session in a new state.
\<close>

type_synonym ('s, 'a) io = "'s \<Rightarrow> 'a completion \<times> 's"

definition returnE :: "'a \<Rightarrow> ('s, 'a) io" where
  "returnE x s = (Normal x, s)"

definition throwE :: "string \<Rightarrow> ('s, 'a) io" where
  "throwE msg s = (Throw msg, s)"

definition bindE :: "('s, 'a) io \<Rightarrow> ('a \<Rightarrow> ('s, 'b) io) \<Rightarrow> ('s, 'b) io" where
  "bindE m f s = (case m s of (Normal x, s') \<Rightarrow> f x s' | (Throw msg, s') \<Rightarrow> (Throw msg, s'))"

text \<open>\<open>try { m } catch (error) { h error }\<close>.\<close>

definition tryCatch :: "('s, 'a) io \<Rightarrow> (string \<Rightarrow> ('s, 'a) io) \<Rightarrow> ('s, 'a) io" where
  "tryCatch m h s = (case m s of (Normal x, s') \<Rightarrow> (Normal x, s') | (Throw msg, s') \<Rightarrow> h msg s')"

text \<open>\<open>for (const x of xs) { await f(x) }\<close>.\<close>

fun forEach :: "('a \<Rightarrow> ('s, unit) io) \<Rightarrow> 'a list \<Rightarrow> ('s, unit) io" where
  "forEach f [] = returnE ()"
| "forEach f (x # xs) = bindE (f x) (\<lambda>_. forEach f xs)"

text \<open>
  \<open>logAdminActivity\<close>, the same in every file: the insert is tried and an error is
  logged to the console, not thrown.
\<close>

definition logAdminActivity :: "'s client \<Rightarrow> log_values \<Rightarrow> ('s, unit) io" where
  "logAdminActivity c vals =
     tryCatch (bindE (c (INSERT_admin_activity_log vals)) (\<lambda>_. returnE ())) (\<lambda>error. returnE ())"

section \<open>Writing an article (routes/admin/categories.js)\<close>

text \<open>
  The request of \<open>router.post('/')\<close> and \<open>router.put('/:newsId')\<close>: the named
  fields of \<open>req.body\<close>, its other fields in key order (the
  \<open>image_metadata_<index>\<close> sidecars are among them), the uploaded files, and what
  the middleware has set (\<open>req.userRole\<close>, \<open>req.adminId\<close>, \<open>req.ip\<close>).
\<close>

record write_request =
  rq_title :: "string option"
  rq_content :: "string option"
  rq_excerpt :: "string option"
  rq_category_ids :: "string option"
  rq_primary_category_id :: "string option"
  rq_priority :: "string option"
  rq_tags :: "string option"
  rq_meta_description :: "string option"
  rq_seo_keywords :: "string option"
  rq_status :: "string option"
  rq_author_id :: "string option"
  rq_social_media_links :: "string option"
  rq_other_fields :: "(string \<times> string) list"
  rq_files :: "string list"
  rq_userRole :: string
  rq_adminId :: jsval
  rq_ip :: string

record write_response =
  wr_http :: nat
  wr_success :: bool
  wr_message :: string
  wr_news_id :: "jsval option"
  wr_slug :: "string option"
  wr_status :: "string option"
  wr_requires_approval :: "bool option"

definition failure :: "nat \<Rightarrow> string \<Rightarrow> write_response" where
  "failure code msg =
     \<lparr>wr_http = code, wr_success = False, wr_message = msg, wr_news_id = None,
      wr_slug = None, wr_status = None, wr_requires_approval = None\<rparr>"

text \<open>\<open>await client.query('ROLLBACK'); return res.status(code).json({success: false, message})\<close>.\<close>

definition reject :: "'s client \<Rightarrow> nat \<Rightarrow> string \<Rightarrow> ('s, write_response) io" where
  "reject c code msg = bindE (c ROLLBACK) (\<lambda>_. returnE (failure code msg))"

text \<open>A default of the destructuring \<open>const {priority = 'medium', \<dots>} = req.body\<close>:
  it stands in for an absent field only.\<close>

definition with_default :: "string option \<Rightarrow> string \<Rightarrow> string" where
  "with_default x d = (case x of None \<Rightarrow> d | Some s \<Rightarrow> s)"

text \<open>\<open>x ? x.trim() : null\<close>.\<close>

definition trim_or_null :: "string \<Rightarrow> string option" where
  "trim_or_null x = (if x \<noteq> [] then Some (trim x) else None)"

text \<open>
  The publish gate, the same lines in both handlers:
  \<open>let finalStatus = status; let requiresApproval = false;
  if (status === 'published' && !canPublish) { finalStatus = 'pending_approval';
  requiresApproval = true; }\<close>
\<close>

definition publish_gate :: "bool \<Rightarrow> string \<Rightarrow> string \<times> bool" where
  "publish_gate canPublish status =
     (if status = ''published'' \<and> \<not> canPublish then (''pending_approval'', True)
      else (status, False))"

text \<open>The loop over \<open>parsedCategoryIds\<close>, the same in both handlers.\<close>

definition insert_categories :: "'s client \<Rightarrow> jsval \<Rightarrow> int \<Rightarrow> jsval list \<Rightarrow> ('s, unit) io" where
  "insert_categories c newsId parsedPrimaryCategoryId parsedCategoryIds =
     forEach (\<lambda>categoryId.
        let isPrimary = is_number parsedPrimaryCategoryId categoryId
        in bindE (c (INSERT_news_categories newsId categoryId isPrimary)) (\<lambda>_. returnE ()))
       parsedCategoryIds"

text \<open>
  The body of the loop over \<open>parsedSocialLinks\<close>:
  \<open>if (link.post_url && link.post_url.trim()) { await client.query(\<dots>) }\<close>.
  \<open>link.post_url\<close> throws on \<open>null\<close>, and \<open>.trim()\<close> throws on a value that
  is not a string. \<open>social_link_values\<close> is what the \<open>if\<close> decides: it throws, or
  it skips the link (\<open>None\<close>), or it gives the parameters of the insert.
\<close>

definition social_link_values :: "jsval \<Rightarrow> social_values option completion" where
  "social_link_values link =
     (if nullish link then Throw ''TypeError''
      else
        let post_url = get_prop link ''post_url''
        in if \<not> truthy post_url then Normal None
           else (case post_url of
                   JStr u \<Rightarrow>
                     if trim u \<noteq> [] then
                       Normal (Some
                         \<lparr>sv_platform = js_or (get_prop link ''platform'') (JStr ''youtube_video''),
                          sv_post_type = js_or (get_prop link ''post_type'') (JStr ''video''),
                          sv_post_url = trim u,
                          sv_display_order = js_or (get_prop link ''display_order'') (JNum 1),
                          sv_auto_embed = (get_prop link ''auto_embed'' \<noteq> JBool False),
                          sv_show_full_embed = (get_prop link ''show_full_embed'' \<noteq> JBool False),
                          sv_is_featured = js_or (get_prop link ''is_featured'') (JBool False),
                          sv_caption = js_or (get_prop link ''caption'') JNull\<rparr>)
                     else Normal None
                 | _ \<Rightarrow> Throw ''TypeError''))"

definition insert_social_link :: "'s client \<Rightarrow> jsval \<Rightarrow> jsval \<Rightarrow> ('s, unit) io" where
  "insert_social_link c newsId link =
     (case social_link_values link of
        Throw msg \<Rightarrow> throwE msg
      | Normal None \<Rightarrow> returnE ()
      | Normal (Some vals) \<Rightarrow>
          bindE (c (INSERT_news_social_media newsId vals)) (\<lambda>_. returnE ()))"

definition insert_social_links :: "env \<Rightarrow> 's client \<Rightarrow> jsval \<Rightarrow> string option \<Rightarrow> ('s, unit) io" where
  "insert_social_links e c newsId social_media_links =
     (case safeJSON e social_media_links (JArr []) of
        JArr parsedSocialLinks \<Rightarrow> forEach (insert_social_link c newsId) parsedSocialLinks
      | _ \<Rightarrow> returnE ())"

text \<open>
  \<^verbatim>\<open>/^image_metadata_(\d+)$/\<close> on a key of the body, and
  \<open>parseInt(match[1], 10)\<close> of its digits.
\<close>

definition image_metadata_index :: "string \<Rightarrow> nat option" where
  "image_metadata_index key =
     (let digits = drop 15 key
      in if take 15 key = ''image_metadata_'' \<and> digits \<noteq> [] \<and> list_all (isRadixDigit 10) digits
         then Some (mathInt 10 digits) else None)"

definition metadataByIndex :: "env \<Rightarrow> (string \<times> string) list \<Rightarrow> nat \<Rightarrow> jsval option" where
  "metadataByIndex e body_fields =
     foldl (\<lambda>m (key, val).
              case image_metadata_index key of
                None \<Rightarrow> m
              | Some index \<Rightarrow> m(index \<mapsto> safeJSON e (Some val) (JObj [])))
       Map.empty body_fields"

text \<open>
  Inside the loop \<open>for (let i = 0; i < uploadedImageData.length; i++)\<close>:
  \<open>const metadata = metadataByIndex[i] || {};\<close>
  \<open>const isFeatured = i === 0 ? true : (metadata.is_featured || false);\<close>
  and the parameters of the insert.
\<close>

definition metadata_at :: "(nat \<Rightarrow> jsval option) \<Rightarrow> nat \<Rightarrow> jsval" where
  "metadata_at md i = (case md i of None \<Rightarrow> JObj [] | Some v \<Rightarrow> js_or v (JObj []))"

definition isFeatured_at :: "(nat \<Rightarrow> jsval option) \<Rightarrow> nat \<Rightarrow> jsval" where
  "isFeatured_at md i =
     (if i = 0 then JBool True
      else js_or (get_prop (metadata_at md i) ''is_featured'') (JBool False))"

definition image_values_at :: "(nat \<Rightarrow> jsval option) \<Rightarrow> nat \<Rightarrow> imgData \<Rightarrow> image_values" where
  "image_values_at md i imgData =
     (let metadata = metadata_at md i
      in \<lparr>iv_image_url = im_url imgData,
          iv_image_caption = js_or (get_prop metadata ''caption'') (JStr []),
          iv_alt_text = js_or (get_prop metadata ''caption'')
                          (js_or (JStr (im_originalname imgData)) (JStr [])),
          iv_display_order = (if get_prop metadata ''order'' \<noteq> JUndefined
                              then get_prop metadata ''order'' else JNum (of_nat i)),
          iv_is_featured = isFeatured_at md i\<rparr>)"

text \<open>
  The loop from index \<open>i\<close> on; \<open>featuredImageUrl\<close> is \<open>None\<close> while it is
  \<open>null\<close>: \<open>if (isFeatured && !featuredImageUrl) { featuredImageUrl = imgData.url; }\<close>
\<close>

fun insert_images_loop ::
  "'s client \<Rightarrow> jsval \<Rightarrow> (nat \<Rightarrow> jsval option) \<Rightarrow> nat \<Rightarrow> imgData list \<Rightarrow> string option \<Rightarrow>
   ('s, string option) io" where
  "insert_images_loop c newsId md i [] featuredImageUrl = returnE featuredImageUrl"
| "insert_images_loop c newsId md i (imgData # rest) featuredImageUrl =
     (let featuredImageUrl' = (if truthy (isFeatured_at md i) \<and> falsy featuredImageUrl
                               then Some (im_url imgData) else featuredImageUrl)
      in bindE (c (INSERT_news_images newsId (image_values_at md i imgData)))
           (\<lambda>_. insert_images_loop c newsId md (Suc i) rest featuredImageUrl'))"

text \<open>The block \<open>if (req.files && req.files.length > 0) { \<dots> }\<close>, the same in both
  handlers.\<close>

definition insert_images :: "env \<Rightarrow> 's client \<Rightarrow> jsval \<Rightarrow> write_request \<Rightarrow> ('s, unit) io" where
  "insert_images e c newsId req =
     (if rq_files req \<noteq> [] then
        case processUploadedFiles e (rq_files req) of
          None \<Rightarrow> throwE ''processUploadedFiles''
        | Some uploadedImageData \<Rightarrow>
            bindE (insert_images_loop c newsId (metadataByIndex e (rq_other_fields req)) 0
                     uploadedImageData None)
              (\<lambda>featuredImageUrl.
                 case featuredImageUrl of
                   None \<Rightarrow> returnE ()
                 | Some url \<Rightarrow>
                     if url \<noteq> [] then bindE (c (UPDATE_image_url url newsId)) (\<lambda>_. returnE ())
                     else returnE ())
      else returnE ())"

definition activity :: "write_request \<Rightarrow> string \<Rightarrow> jsval \<Rightarrow> string \<Rightarrow> string \<Rightarrow> bool \<Rightarrow> log_values" where
  "activity req action newsId title finalStatus requiresApproval =
     \<lparr>lg_admin_id = rq_adminId req, lg_action = action, lg_target_type = ''news'',
      lg_target_id = newsId,
      lg_details = JObj [(''title'', JStr title), (''status'', JStr finalStatus),
                         (''requires_approval'', JBool requiresApproval)],
      lg_ip = rq_ip req\<rparr>"

text \<open>The values \<open>$1 \<dots> $13\<close> that both handlers compute from the request.\<close>

definition changes_of ::
  "env \<Rightarrow> write_request \<Rightarrow> string \<Rightarrow> string \<Rightarrow> int \<Rightarrow> string \<Rightarrow> news_changes" where
  "changes_of e req title content parsedPrimaryCategoryId finalStatus =
     \<lparr>v_title = trim title,
      v_slug = generateSlug e title,
      v_content = content,
      v_processed_content = processContentFormatting e content,
      v_excerpt = (if \<not> falsy (rq_excerpt req) then trim (with_default (rq_excerpt req) [])
                   else take 200 title),
      v_category_id = parsedPrimaryCategoryId,
      v_primary_category_id = parsedPrimaryCategoryId,
      v_priority = with_default (rq_priority req) ''medium'',
      v_reading_time = calculateReadingTime e content,
      v_status = finalStatus,
      v_tags = trim_or_null (with_default (rq_tags req) []),
      v_meta_description = trim_or_null (with_default (rq_meta_description req) []),
      v_seo_keywords = trim_or_null (with_default (rq_seo_keywords req) [])\<rparr>"

subsection \<open>\<open>router.post('/')\<close>\<close>

text \<open>The handler from \<open>const slug = generateSlug(title)\<close> to the response 201.\<close>

definition create_persist ::
  "env \<Rightarrow> 's client \<Rightarrow> write_request \<Rightarrow> string \<Rightarrow> string \<Rightarrow> int \<Rightarrow> jsval list \<Rightarrow> int \<Rightarrow>
   ('s, write_response) io" where
  "create_persist e c req title content actualAuthorId parsedCategoryIds parsedPrimaryCategoryId =
     (let extractedQuotes = extractQuotes content;
          canPublish = canPublishDirectly e (rq_userRole req);
          (finalStatus, requiresApproval) =
             publish_gate canPublish (with_default (rq_status req) ''draft'');
          newsInsertValues =
             \<lparr>nv_fields = changes_of e req title content parsedPrimaryCategoryId finalStatus,
              nv_author_id = actualAuthorId,
              nv_published_at = (if finalStatus = ''published'' then Some (Date_now e) else None)\<rparr>
      in bindE (c (INSERT_news newsInsertValues)) (\<lambda>(rows, _).
           case rows of
             [] \<Rightarrow> throwE ''TypeError''
           | row # _ \<Rightarrow>
               if nullish row then throwE ''TypeError''
               else
                 let newsId = get_prop row ''news_id''
                 in bindE (insert_categories c newsId parsedPrimaryCategoryId parsedCategoryIds) (\<lambda>_.
                    bindE (if extractedQuotes \<noteq> []
                           then bindE (c (UPDATE_quotes_data extractedQuotes newsId)) (\<lambda>_. returnE ())
                           else returnE ()) (\<lambda>_.
                    bindE (insert_social_links e c newsId (rq_social_media_links req)) (\<lambda>_.
                    bindE (insert_images e c newsId req) (\<lambda>_.
                    bindE (logAdminActivity c
                             (activity req ''create_post'' newsId title finalStatus requiresApproval)) (\<lambda>_.
                    bindE (c COMMIT) (\<lambda>_.
                    returnE
                      \<lparr>wr_http = 201, wr_success = True,
                       wr_message =
                         (if requiresApproval then ''Post created and submitted for approval''
                          else if finalStatus = ''published'' then ''Post published successfully''
                          else ''Draft created successfully''),
                       wr_news_id = Some newsId,
                       wr_slug = Some (generateSlug e title),
                       wr_status = Some finalStatus,
                       wr_requires_approval = Some requiresApproval\<rparr>))))))))"

text \<open>The \<open>try\<close> block: \<open>BEGIN\<close>, the validation chain, and the rest.\<close>

definition create_try :: "env \<Rightarrow> 's client \<Rightarrow> write_request \<Rightarrow> ('s, write_response) io" where
  "create_try e c req =
     bindE (c BEGIN) (\<lambda>_.
       if falsy (rq_title req) \<or> falsy (rq_content req) \<or> falsy (rq_category_ids req) \<or>
          falsy (rq_primary_category_id req) \<or> falsy (rq_author_id req)
       then reject c 400
              ''Missing required fields: title, content, category_ids, primary_category_id, author_id''
       else
         let actualAuthorId = parseIntSafe (rq_author_id req) 0
         in if actualAuthorId = 0 then reject c 400 ''Invalid author_id''
            else
              (case safeJSON e (rq_category_ids req) (JArr []) of
                 JArr parsedCategoryIds \<Rightarrow>
                   if parsedCategoryIds = [] then reject c 400 ''At least one category must be selected''
                   else
                     let parsedPrimaryCategoryId = parseIntSafe (rq_primary_category_id req) 0
                     in if parsedPrimaryCategoryId = 0
                        then reject c 400 ''Primary category ID is required''
                        else if \<not> array_includes parsedCategoryIds parsedPrimaryCategoryId
                        then reject c 400 ''Primary category must be one of the selected categories''
                        else create_persist e c req (with_default (rq_title req) [])
                               (with_default (rq_content req) []) actualAuthorId
                               parsedCategoryIds parsedPrimaryCategoryId
               | _ \<Rightarrow> reject c 400 ''At least one category must be selected''))"

text \<open>The handler: an error thrown in the \<open>try\<close> block is answered by
  \<open>ROLLBACK\<close> and the response 500.\<close>

definition create_post :: "env \<Rightarrow> 's client \<Rightarrow> write_request \<Rightarrow> ('s, write_response) io" where
  "create_post e c req =
     tryCatch (create_try e c req)
       (\<lambda>error. bindE (c ROLLBACK) (\<lambda>_. returnE (failure 500 ''Failed to create post'')))"

subsection \<open>\<open>router.put('/:newsId')\<close>\<close>

text \<open>\<open>parseInt(req.params.newsId, 10)\<close> as a value.\<close>

definition param_id :: "string \<Rightarrow> jsval" where
  "param_id s = (case parseInt s (Some 10) of None \<Rightarrow> JNaN | Some n \<Rightarrow> JNum (of_int n))"

definition update_persist ::
  "env \<Rightarrow> 's client \<Rightarrow> jsval \<Rightarrow> write_request \<Rightarrow> string \<Rightarrow> string \<Rightarrow> jsval list \<Rightarrow> int \<Rightarrow>
   ('s, write_response) io" where
  "update_persist e c newsId req title content parsedCategoryIds parsedPrimaryCategoryId =
     (let extractedQuotes = extractQuotes content;
          canPublish = canPublishDirectly e (rq_userRole req);
          (finalStatus, requiresApproval) =
             publish_gate canPublish (with_default (rq_status req) ''draft'');
          updateValues = changes_of e req title content parsedPrimaryCategoryId finalStatus
      in bindE (c (UPDATE_news updateValues newsId)) (\<lambda>_.
         bindE (c (DELETE_FROM ''news_categories'' newsId)) (\<lambda>_.
         bindE (insert_categories c newsId parsedPrimaryCategoryId parsedCategoryIds) (\<lambda>_.
         bindE (if extractedQuotes \<noteq> []
                then c (UPDATE_quotes_data extractedQuotes newsId)
                else c (UPDATE_quotes_data [] newsId)) (\<lambda>_.
         bindE (c (DELETE_FROM ''news_social_media'' newsId)) (\<lambda>_.
         bindE (insert_social_links e c newsId (rq_social_media_links req)) (\<lambda>_.
         bindE (insert_images e c newsId req) (\<lambda>_.
         bindE (logAdminActivity c
                  (activity req ''update_post'' newsId title finalStatus requiresApproval)) (\<lambda>_.
         bindE (c COMMIT) (\<lambda>_.
         returnE
           \<lparr>wr_http = 200, wr_success = True,
            wr_message =
              (if requiresApproval then ''Post updated and submitted for approval''
               else if finalStatus = ''published'' then ''Post updated successfully''
               else ''Draft updated successfully''),
            wr_news_id = Some newsId,
            wr_slug = Some (generateSlug e title),
            wr_status = Some finalStatus,
            wr_requires_approval = Some requiresApproval\<rparr>))))))))))"

definition update_try :: "env \<Rightarrow> 's client \<Rightarrow> string \<Rightarrow> write_request \<Rightarrow> ('s, write_response) io" where
  "update_try e c params_newsId req =
     (let newsId = param_id params_newsId
      in bindE (c BEGIN) (\<lambda>_.
         bindE (c (SELECT_news newsId)) (\<lambda>(rows, _).
           if rows = [] then reject c 404 ''Post not found''
           else if falsy (rq_title req) \<or> falsy (rq_content req) \<or> falsy (rq_category_ids req) \<or>
                   falsy (rq_primary_category_id req)
           then reject c 400 ''Missing required fields''
           else
             (case safeJSON e (rq_category_ids req) (JArr []) of
                JArr parsedCategoryIds \<Rightarrow>
                  if parsedCategoryIds = [] then reject c 400 ''At least one category must be selected''
                  else
                    let parsedPrimaryCategoryId = parseIntSafe (rq_primary_category_id req) 0
                    in if parsedPrimaryCategoryId = 0
                       then reject c 400 ''Primary category ID is required''
                       else if \<not> array_includes parsedCategoryIds parsedPrimaryCategoryId
                       then reject c 400 ''Primary category must be one of the selected categories''
                       else update_persist e c newsId req (with_default (rq_title req) [])
                              (with_default (rq_content req) []) parsedCategoryIds
                              parsedPrimaryCategoryId
              | _ \<Rightarrow> reject c 400 ''At least one category must be selected''))))"

definition update_post :: "env \<Rightarrow> 's client \<Rightarrow> string \<Rightarrow> write_request \<Rightarrow> ('s, write_response) io" where
  "update_post e c params_newsId req =
     tryCatch (update_try e c params_newsId req)
       (\<lambda>error. bindE (c ROLLBACK) (\<lambda>_. returnE (failure 500 ''Failed to update post'')))"

section \<open>Deleting articles\<close>

record delete_response =
  dr_http :: nat
  dr_success :: bool
  dr_message :: string
  dr_deleted :: "nat option"

definition delete_failure :: "nat \<Rightarrow> string \<Rightarrow> delete_response" where
  "delete_failure code msg =
     \<lparr>dr_http = code, dr_success = False, dr_message = msg, dr_deleted = None\<rparr>"

definition delete_reject :: "'s client \<Rightarrow> nat \<Rightarrow> string \<Rightarrow> ('s, delete_response) io" where
  "delete_reject c code msg = bindE (c ROLLBACK) (\<lambda>_. returnE (delete_failure code msg))"

text \<open>A run of \<open>await client.query('DELETE FROM <table> WHERE news_id = $1', [id])\<close>, one
  per table.\<close>

definition delete_from_all :: "'s client \<Rightarrow> string list \<Rightarrow> jsval \<Rightarrow> ('s, unit) io" where
  "delete_from_all c tables_named news_id =
     forEach (\<lambda>tableName. bindE (c (DELETE_FROM tableName news_id)) (\<lambda>_. returnE ())) tables_named"

subsection \<open>\<open>router.delete('/:newsId')\<close> of routes/admin/categories.js\<close>

definition delete_post_try :: "'s client \<Rightarrow> string \<Rightarrow> write_request \<Rightarrow> ('s, delete_response) io" where
  "delete_post_try c params_newsId req =
     (let newsId = param_id params_newsId
      in bindE (c BEGIN) (\<lambda>_.
         bindE (c (SELECT_news newsId)) (\<lambda>(rows, _).
           case rows of
             [] \<Rightarrow> delete_reject c 404 ''Post not found''
           | existing # _ \<Rightarrow>
               bindE (delete_from_all c
                        [''news_categories'', ''news_social_media'', ''news_images'', ''news''] newsId) (\<lambda>_.
               if nullish existing then throwE ''TypeError''
               else
                 bindE (logAdminActivity c
                          \<lparr>lg_admin_id = rq_adminId req, lg_action = ''delete_post'',
                           lg_target_type = ''news'', lg_target_id = newsId,
                           lg_details = JObj [(''title'', get_prop existing ''title'')],
                           lg_ip = rq_ip req\<rparr>) (\<lambda>_.
                 bindE (c COMMIT) (\<lambda>_.
                 returnE \<lparr>dr_http = 200, dr_success = True,
                          dr_message = ''Post deleted successfully'', dr_deleted = None\<rparr>))))))"

definition delete_post :: "'s client \<Rightarrow> string \<Rightarrow> write_request \<Rightarrow> ('s, delete_response) io" where
  "delete_post c params_newsId req =
     tryCatch (delete_post_try c params_newsId req)
       (\<lambda>error. bindE (c ROLLBACK) (\<lambda>_. returnE (delete_failure 500 ''Failed to delete post'')))"

subsection \<open>The first delete router of src/unnamed/part_001\<close>

text \<open>\<^verbatim>\<open>/^\d+$/.test(id)\<close>\<close>

definition all_digits :: "string \<Rightarrow> bool" where
  "all_digits news_id \<longleftrightarrow> news_id \<noteq> [] \<and> list_all (isRadixDigit 10) news_id"

text \<open>\<open>safeDelete\<close>: the row count, and 0 when the statement throws.\<close>

definition safeDelete :: "'s client \<Rightarrow> string \<Rightarrow> jsval \<Rightarrow> ('s, nat) io" where
  "safeDelete c tableName newsId =
     tryCatch (bindE (c (DELETE_FROM tableName newsId)) (\<lambda>(rows, rowCount). returnE rowCount))
       (\<lambda>error. returnE 0)"

definition related_tables :: "string list" where
  "related_tables =
     [''breaking_news'', ''featured_news'', ''pinned_news'', ''news_categories'', ''news_images'',
      ''news_social_media'', ''news_videos'', ''news_content_blocks'', ''news_comments'',
      ''news_reactions'', ''news_shares'', ''user_saved_articles'', ''page_views'',
      ''news_approval_history'', ''news_approval'']"

text \<open>\<open>totalDeleted += await safeDelete(client, <table>, id)\<close>, table after table.\<close>

fun safeDelete_all :: "'s client \<Rightarrow> string list \<Rightarrow> jsval \<Rightarrow> nat \<Rightarrow> ('s, nat) io" where
  "safeDelete_all c [] news_id totalDeleted = returnE totalDeleted"
| "safeDelete_all c (tableName # rest) news_id totalDeleted =
     bindE (safeDelete c tableName news_id) (\<lambda>n. safeDelete_all c rest news_id (totalDeleted + n))"

text \<open>The \<open>catch\<close> of the delete handlers of this file and of client.js: the rollback is
  tried, and its own failure is logged only.\<close>

definition rollback_quietly :: "'s client \<Rightarrow> ('s, unit) io" where
  "rollback_quietly c = tryCatch (bindE (c ROLLBACK) (\<lambda>_. returnE ())) (\<lambda>rollbackError. returnE ())"

definition delete_news_try :: "'s client \<Rightarrow> string \<Rightarrow> write_request \<Rightarrow> ('s, delete_response) io" where
  "delete_news_try c news_id req =
     bindE (c BEGIN) (\<lambda>_.
       if news_id = [] \<or> \<not> all_digits news_id then delete_reject c 400 ''Valid news ID is required''
       else
         bindE (c (SELECT_news (JStr news_id))) (\<lambda>(rows, _).
           case rows of
             [] \<Rightarrow> delete_reject c 404 ''News article not found''
           | article # _ \<Rightarrow>
               if nullish article then throwE ''TypeError''
               else
                 bindE (safeDelete_all c related_tables (JStr news_id) 0) (\<lambda>totalDeleted.
                 bindE (c (DELETE_FROM ''news'' (JStr news_id))) (\<lambda>(_, rowCount).
                   if rowCount = 0 then delete_reject c 500 ''Failed to delete news article''
                   else
                     bindE (logAdminActivity c
                              \<lparr>lg_admin_id = rq_adminId req, lg_action = ''delete_news'',
                               lg_target_type = ''news'', lg_target_id = JStr news_id,
                               lg_details = get_prop article ''title'', lg_ip = rq_ip req\<rparr>) (\<lambda>_.
                     bindE (c COMMIT) (\<lambda>_.
                     returnE \<lparr>dr_http = 200, dr_success = True,
                              dr_message = ''Article permanently deleted'',
                              dr_deleted = Some (totalDeleted + rowCount)\<rparr>))))))"

definition delete_news :: "'s client \<Rightarrow> string \<Rightarrow> write_request \<Rightarrow> ('s, delete_response) io" where
  "delete_news c news_id req =
     tryCatch (delete_news_try c news_id req)
       (\<lambda>error. bindE (rollback_quietly c) (\<lambda>_. returnE (delete_failure 500 ''Internal server error'')))"

text \<open>
  \<open>router.post('/bulk')\<close> of the same file. \<open>results.success\<close> holds the id and the
  title of each entry, \<open>results.failed\<close> the id and the reason.
\<close>

record bulk_results =
  br_success :: "(jsval \<times> jsval) list"
  br_failed :: "(jsval \<times> string) list"

record bulk_response =
  bk_http :: nat
  bk_success :: bool
  bk_results :: "bulk_results option"

definition bulk_failure :: "nat \<Rightarrow> bulk_response" where
  "bulk_failure code = \<lparr>bk_http = code, bk_success = False, bk_results = None\<rparr>"

text \<open>The body of the \<open>try\<close> inside the loop, for one \<open>newsId\<close>.\<close>

definition bulk_item :: "'s client \<Rightarrow> jsval \<Rightarrow> bulk_results \<Rightarrow> ('s, bulk_results) io" where
  "bulk_item c newsId results =
     bindE (c (SELECT_news newsId)) (\<lambda>(rows, _).
       case rows of
         [] \<Rightarrow> returnE (results\<lparr>br_failed := br_failed results @ [(newsId, ''Not found'')]\<rparr>)
       | article # _ \<Rightarrow>
           bindE (safeDelete_all c related_tables newsId 0) (\<lambda>_.
           bindE (c (DELETE_FROM ''news'' newsId)) (\<lambda>(_, rowCount).
             if 0 < rowCount then
               if nullish article then throwE ''TypeError''
               else returnE (results\<lparr>br_success := br_success results @
                                         [(newsId, get_prop article ''title'')]\<rparr>)
             else returnE (results\<lparr>br_failed := br_failed results @ [(newsId, ''Delete failed'')]\<rparr>))))"

text \<open>\<open>for (const newsId of news_ids) { try { \<dots> } catch (itemError) {
  results.failed.push({id: newsId, reason: itemError.message}) } }\<close>, for any body of the
  \<open>try\<close>.\<close>

fun bulk_loop ::
  "(jsval \<Rightarrow> bulk_results \<Rightarrow> ('s, bulk_results) io) \<Rightarrow> jsval list \<Rightarrow> bulk_results \<Rightarrow>
   ('s, bulk_results) io" where
  "bulk_loop item [] results = returnE results"
| "bulk_loop item (newsId # rest) results =
     bindE (tryCatch (item newsId results)
              (\<lambda>itemError. returnE (results\<lparr>br_failed := br_failed results @ [(newsId, itemError)]\<rparr>)))
       (bulk_loop item rest)"

definition bulk_try ::
  "(jsval \<Rightarrow> bulk_results \<Rightarrow> ('s, bulk_results) io) \<Rightarrow> 's client \<Rightarrow> jsval \<Rightarrow> write_request \<Rightarrow>
   ('s, bulk_response) io" where
  "bulk_try item c news_ids req =
     bindE (c BEGIN) (\<lambda>_.
       case news_ids of
         JArr ids \<Rightarrow>
           if ids = [] then bindE (c ROLLBACK) (\<lambda>_. returnE (bulk_failure 400))
           else
             bindE (bulk_loop item ids \<lparr>br_success = [], br_failed = []\<rparr>) (\<lambda>results.
             bindE (logAdminActivity c
                      \<lparr>lg_admin_id = rq_adminId req, lg_action = ''bulk_delete'',
                       lg_target_type = ''news'', lg_target_id = JNull,
                       lg_details = JNum (of_nat (length (br_success results))),
                       lg_ip = rq_ip req\<rparr>) (\<lambda>_.
             bindE (c COMMIT) (\<lambda>_.
             returnE \<lparr>bk_http = 200, bk_success = True, bk_results = Some results\<rparr>)))
       | _ \<Rightarrow> bindE (c ROLLBACK) (\<lambda>_. returnE (bulk_failure 400)))"

definition bulk_delete :: "'s client \<Rightarrow> jsval \<Rightarrow> write_request \<Rightarrow> ('s, bulk_response) io" where
  "bulk_delete c news_ids req =
     tryCatch (bulk_try (bulk_item c) c news_ids req)
       (\<lambda>error. bindE (c ROLLBACK) (\<lambda>_. returnE (bulk_failure 500)))"

subsection \<open>routes/api/client.js\<close>

text \<open>
  \<open>deleteCloudflareImages\<close>: the number of image urls of the article. The calls of
  \<open>cloudflareService.deleteImage\<close> act on the image store only, and their errors are
  caught one by one.
\<close>

definition deleteCloudflareImages :: "'s client \<Rightarrow> jsval \<Rightarrow> ('s, nat) io" where
  "deleteCloudflareImages c newsId =
     tryCatch
       (bindE (c (SELECT_news_images newsId)) (\<lambda>(imageRows, _).
        bindE (c (SELECT_news newsId)) (\<lambda>(mainRows, _).
          if list_ex nullish (take 1 mainRows) \<or> list_ex nullish imageRows then throwE ''TypeError''
          else returnE (length (filter (\<lambda>row. truthy (get_prop row ''image_url''))
                                  (take 1 mainRows @ imageRows))))))
       (\<lambda>error. returnE 0)"

definition client_tables :: "string list" where
  "client_tables =
     [''news_categories'', ''news_images'', ''news_social_media'', ''news_comments'', ''likes'',
      ''post_promotions'', ''featured_news'', ''news'']"

definition client_delete_try :: "'s client \<Rightarrow> string \<Rightarrow> write_request \<Rightarrow> ('s, delete_response) io" where
  "client_delete_try c news_id req =
     bindE (c BEGIN) (\<lambda>_.
       if news_id = [] \<or> \<not> all_digits news_id then delete_reject c 400 ''Valid news ID is required''
       else
         bindE (c (SELECT_news (JStr news_id))) (\<lambda>(rows, _).
           case rows of
             [] \<Rightarrow> delete_reject c 404 ''News article not found''
           | article # _ \<Rightarrow>
               bindE (deleteCloudflareImages c (JStr news_id)) (\<lambda>deletedImagesCount.
               bindE (delete_from_all c client_tables (JStr news_id)) (\<lambda>_.
               if nullish article then throwE ''TypeError''
               else
                 bindE (logAdminActivity c
                          \<lparr>lg_admin_id = rq_adminId req, lg_action = ''delete_news'',
                           lg_target_type = ''news'', lg_target_id = JStr news_id,
                           lg_details = get_prop article ''title'', lg_ip = rq_ip req\<rparr>) (\<lambda>_.
                 bindE (c COMMIT) (\<lambda>_.
                 returnE \<lparr>dr_http = 200, dr_success = True,
                          dr_message = ''Article permanently deleted'',
                          dr_deleted = Some deletedImagesCount\<rparr>))))))"

definition client_delete :: "'s client \<Rightarrow> string \<Rightarrow> write_request \<Rightarrow> ('s, delete_response) io" where
  "client_delete c news_id req =
     tryCatch (client_delete_try c news_id req)
       (\<lambda>error. bindE (rollback_quietly c) (\<lambda>_. returnE (delete_failure 500 ''Internal server error'')))"

text \<open>The body of the \<open>try\<close> inside the loop of \<open>router.post('/bulk')\<close> of client.js
  (the count of deleted images that each entry carries besides is left out).\<close>

definition client_bulk_item :: "'s client \<Rightarrow> jsval \<Rightarrow> bulk_results \<Rightarrow> ('s, bulk_results) io" where
  "client_bulk_item c newsId results =
     bindE (c (SELECT_news newsId)) (\<lambda>(rows, _).
       case rows of
         [] \<Rightarrow> returnE (results\<lparr>br_failed := br_failed results @ [(newsId, ''Not found'')]\<rparr>)
       | article # _ \<Rightarrow>
           bindE (deleteCloudflareImages c newsId) (\<lambda>deletedImagesCount.
           bindE (delete_from_all c client_tables newsId) (\<lambda>_.
             if nullish article then throwE ''TypeError''
             else returnE (results\<lparr>br_success := br_success results @
                                       [(newsId, get_prop article ''title'')]\<rparr>))))"

definition client_bulk_delete :: "'s client \<Rightarrow> jsval \<Rightarrow> write_request \<Rightarrow> ('s, bulk_response) io" where
  "client_bulk_delete c news_ids req =
     tryCatch (bulk_try (client_bulk_item c) c news_ids req)
       (\<lambda>error. bindE (c ROLLBACK) (\<lambda>_. returnE (bulk_failure 500)))"

section \<open>A PostgreSQL session\<close>

text \<open>
  The sources name PostgreSQL as their datastore. This section gives one session of it
  as a state machine, to run the handlers on: the tables the handlers write, with the
  columns their statements name, and the rules of a transaction block. The schema is
  not among the sources: the tables carry no uniqueness or foreign-key constraint
  here, key columns are integers that are not null, and every other column keeps the
  parameter it was given.
\<close>

record news_row =
  n_news_id :: int
  n_fields :: news_changes
  n_author_id :: int
  n_published_at :: "int option"
  n_quotes_data :: "quote list option"
  n_image_url :: "string option"
  n_updated_at :: "int option"

record category_link =
  nc_news_id :: int
  nc_category_id :: int
  nc_is_primary :: bool

record social_row =
  sm_news_id :: int
  sm_values :: social_values

record image_row =
  img_news_id :: int
  img_values :: image_values

text \<open>\<open>t_other\<close> lists, for every other table that exists and has a \<open>news_id\<close>
  column, that column of its rows.\<close>

record tables =
  t_news :: "news_row list"
  t_news_seq :: int
  t_news_categories :: "category_link list"
  t_news_social_media :: "social_row list"
  t_news_images :: "image_row list"
  t_admin_activity_log :: "log_values list"
  t_other :: "(string \<times> int list) list"

text \<open>
  A parameter bound to an integer column: a number that is an integer, a text that is
  a decimal integer literal, or NULL; anything else is refused
  (\<open>invalid input syntax for type integer\<close>).
\<close>

datatype pg_int = PgInt int | PgNull | PgInvalid

definition integer_literal :: "string \<Rightarrow> int option" where
  "integer_literal s =
     (let t = trim s;
          digits = (if take 1 t = ''-'' \<or> take 1 t = ''+'' then drop 1 t else t)
      in if digits \<noteq> [] \<and> list_all (isRadixDigit 10) digits
         then Some ((if take 1 t = ''-'' then - 1 else 1) * int (mathInt 10 digits))
         else None)"

definition as_pg_int :: "jsval \<Rightarrow> pg_int" where
  "as_pg_int v =
     (case v of
        JNum r \<Rightarrow> if of_int \<lfloor>r\<rfloor> = r then PgInt \<lfloor>r\<rfloor> else PgInvalid
      | JStr s \<Rightarrow> (case integer_literal s of None \<Rightarrow> PgInvalid | Some n \<Rightarrow> PgInt n)
      | JNull \<Rightarrow> PgNull
      | JUndefined \<Rightarrow> PgNull
      | _ \<Rightarrow> PgInvalid)"

definition invalid_integer :: string where
  "invalid_integer = ''invalid input syntax for type integer''"

definition null_key :: string where
  "null_key = ''null value violates not-null constraint''"

definition returned_news :: "news_row \<Rightarrow> jsval" where
  "returned_news row =
     JObj [(''news_id'', JNum (of_int (n_news_id row))), (''title'', JStr (v_title (n_fields row))),
           (''slug'', JStr (v_slug (n_fields row))), (''status'', JStr (v_status (n_fields row))),
           (''author_id'', JNum (of_int (n_author_id row))),
           (''image_url'', (case n_image_url row of None \<Rightarrow> JNull | Some u \<Rightarrow> JStr u))]"

text \<open>\<open>UPDATE news SET \<dots> WHERE news_id = $14\<close> on one row, at the time \<open>now\<close>:
  \<open>published_at = CASE WHEN $10 = 'published' AND published_at IS NULL THEN NOW()
  ELSE published_at END, updated_at = NOW()\<close>.\<close>

definition apply_changes :: "int \<Rightarrow> news_changes \<Rightarrow> news_row \<Rightarrow> news_row" where
  "apply_changes now ch row =
     row\<lparr>n_fields := ch,
         n_published_at := (if v_status ch = ''published'' \<and> n_published_at row = None
                            then Some now else n_published_at row),
         n_updated_at := Some now\<rparr>"

text \<open>An update of the rows of \<open>news\<close> with the id \<open>k\<close>.\<close>

definition update_news_where :: "int \<Rightarrow> (news_row \<Rightarrow> news_row) \<Rightarrow> tables \<Rightarrow> tables" where
  "update_news_where k f t =
     t\<lparr>t_news := map (\<lambda>row. if n_news_id row = k then f row else row) (t_news t)\<rparr>"

definition count_news :: "int \<Rightarrow> tables \<Rightarrow> nat" where
  "count_news k t = length (filter (\<lambda>row. n_news_id row = k) (t_news t))"

text \<open>\<open>DELETE FROM <table> WHERE news_id = k\<close>: the new tables and the row count, or
  nothing when the table does not exist.\<close>

definition delete_where :: "string \<Rightarrow> int \<Rightarrow> tables \<Rightarrow> (nat \<times> tables) option" where
  "delete_where tableName k t =
     (if tableName = ''news'' then
        Some (length (filter (\<lambda>r. n_news_id r = k) (t_news t)),
              t\<lparr>t_news := filter (\<lambda>r. n_news_id r \<noteq> k) (t_news t)\<rparr>)
      else if tableName = ''news_categories'' then
        Some (length (filter (\<lambda>r. nc_news_id r = k) (t_news_categories t)),
              t\<lparr>t_news_categories := filter (\<lambda>r. nc_news_id r \<noteq> k) (t_news_categories t)\<rparr>)
      else if tableName = ''news_social_media'' then
        Some (length (filter (\<lambda>r. sm_news_id r = k) (t_news_social_media t)),
              t\<lparr>t_news_social_media := filter (\<lambda>r. sm_news_id r \<noteq> k) (t_news_social_media t)\<rparr>)
      else if tableName = ''news_images'' then
        Some (length (filter (\<lambda>r. img_news_id r = k) (t_news_images t)),
              t\<lparr>t_news_images := filter (\<lambda>r. img_news_id r \<noteq> k) (t_news_images t)\<rparr>)
      else
        (case map_of (t_other t) tableName of
           None \<Rightarrow> None
         | Some ids \<Rightarrow>
             Some (length (filter (\<lambda>i. i = k) ids),
                   t\<lparr>t_other := map (\<lambda>(n, refs). if n = tableName then (n, filter (\<lambda>i. i \<noteq> k) refs)
                                                else (n, refs)) (t_other t)\<rparr>)))"

text \<open>
  One statement on the tables, at the time \<open>now\<close>: the rows and the row count it
  returns and the new tables, or the error it raises.
\<close>

fun pg_run :: "int \<Rightarrow> stmt \<Rightarrow> tables \<Rightarrow> ((jsval list \<times> nat) \<times> tables) completion" where
  "pg_run now (INSERT_news vals) t =
     (let row = \<lparr>n_news_id = t_news_seq t, n_fields = nv_fields vals,
                 n_author_id = nv_author_id vals, n_published_at = nv_published_at vals,
                 n_quotes_data = None, n_image_url = None, n_updated_at = None\<rparr>
      in Normal (([returned_news row], 1),
                 t\<lparr>t_news := t_news t @ [row], t_news_seq := t_news_seq t + 1\<rparr>))"
| "pg_run now (UPDATE_news ch newsId) t =
     (case as_pg_int newsId of
        PgInvalid \<Rightarrow> Throw invalid_integer
      | PgNull \<Rightarrow> Normal (([], 0), t)
      | PgInt k \<Rightarrow>
          (let t' = update_news_where k (apply_changes now ch) t
           in Normal ((map returned_news (filter (\<lambda>row. n_news_id row = k) (t_news t')),
                       count_news k t), t')))"
| "pg_run now (INSERT_news_categories newsId categoryId isPrimary) t =
     (case (as_pg_int newsId, as_pg_int categoryId) of
        (PgInt k, PgInt cat) \<Rightarrow>
          Normal (([], 1),
                  t\<lparr>t_news_categories := t_news_categories t @
                       [\<lparr>nc_news_id = k, nc_category_id = cat, nc_is_primary = isPrimary\<rparr>]\<rparr>)
      | (PgInvalid, _) \<Rightarrow> Throw invalid_integer
      | (_, PgInvalid) \<Rightarrow> Throw invalid_integer
      | _ \<Rightarrow> Throw null_key)"
| "pg_run now (UPDATE_quotes_data quotes newsId) t =
     (case as_pg_int newsId of
        PgInvalid \<Rightarrow> Throw invalid_integer
      | PgNull \<Rightarrow> Normal (([], 0), t)
      | PgInt k \<Rightarrow>
          Normal (([], count_news k t),
                  update_news_where k (\<lambda>row. row\<lparr>n_quotes_data := Some quotes\<rparr>) t))"
| "pg_run now (INSERT_news_social_media newsId vals) t =
     (case as_pg_int newsId of
        PgInvalid \<Rightarrow> Throw invalid_integer
      | PgNull \<Rightarrow> Throw null_key
      | PgInt k \<Rightarrow>
          Normal (([], 1),
                  t\<lparr>t_news_social_media := t_news_social_media t @
                       [\<lparr>sm_news_id = k, sm_values = vals\<rparr>]\<rparr>))"
| "pg_run now (INSERT_news_images newsId vals) t =
     (case as_pg_int newsId of
        PgInvalid \<Rightarrow> Throw invalid_integer
      | PgNull \<Rightarrow> Throw null_key
      | PgInt k \<Rightarrow>
          Normal (([], 1),
                  t\<lparr>t_news_images := t_news_images t @
                       [\<lparr>img_news_id = k, img_values = vals\<rparr>]\<rparr>))"
| "pg_run now (UPDATE_image_url url newsId) t =
     (case as_pg_int newsId of
        PgInvalid \<Rightarrow> Throw invalid_integer
      | PgNull \<Rightarrow> Normal (([], 0), t)
      | PgInt k \<Rightarrow>
          Normal (([], count_news k t),
                  update_news_where k (\<lambda>row. row\<lparr>n_image_url := Some url\<rparr>) t))"
| "pg_run now (INSERT_admin_activity_log vals) t =
     Normal (([], 1), t\<lparr>t_admin_activity_log := t_admin_activity_log t @ [vals]\<rparr>)"
| "pg_run now (SELECT_news newsId) t =
     (case as_pg_int newsId of
        PgInvalid \<Rightarrow> Throw invalid_integer
      | PgNull \<Rightarrow> Normal (([], 0), t)
      | PgInt k \<Rightarrow>
          Normal ((map returned_news (filter (\<lambda>row. n_news_id row = k) (t_news t)),
                   count_news k t), t))"
| "pg_run now (SELECT_news_images newsId) t =
     (case as_pg_int newsId of
        PgInvalid \<Rightarrow> Throw invalid_integer
      | PgNull \<Rightarrow> Normal (([], 0), t)
      | PgInt k \<Rightarrow>
          (let found = filter (\<lambda>r. img_news_id r = k) (t_news_images t)
           in Normal ((map (\<lambda>r. JObj [(''image_url'', JStr (iv_image_url (img_values r)))]) found,
                       length found), t)))"
| "pg_run now (DELETE_FROM tableName newsId) t =
     (case as_pg_int newsId of
        PgInvalid \<Rightarrow> Throw invalid_integer
      | PgNull \<Rightarrow> (case delete_where tableName 0 t of
                     None \<Rightarrow> Throw ''relation does not exist''
                   | Some _ \<Rightarrow> Normal (([], 0), t))
      | PgInt k \<Rightarrow> (case delete_where tableName k t of
                      None \<Rightarrow> Throw ''relation does not exist''
                    | Some (n, t') \<Rightarrow> Normal (([], n), t')))"
| "pg_run now BEGIN t = Normal (([], 0), t)"
| "pg_run now COMMIT t = Normal (([], 0), t)"
| "pg_run now ROLLBACK t = Normal (([], 0), t)"

text \<open>
  The session: the committed tables, the working copy of the open transaction block
  (if one is open), whether the block has failed, and the time of \<open>NOW()\<close>.
  A statement that raises an error inside a block makes the block fail; a failed block
  refuses every statement but \<open>COMMIT\<close> and \<open>ROLLBACK\<close>, and both end it by
  discarding the working copy. Outside a block every statement is committed at once.
\<close>

record pgstate =
  pg_committed :: tables
  pg_tx :: "tables option"
  pg_failed :: bool
  pg_now :: int

definition aborted :: string where
  "aborted = ''current transaction is aborted, commands ignored until end of transaction block''"

definition pg_statement :: "stmt \<Rightarrow> pgstate \<Rightarrow> (jsval list \<times> nat) completion \<times> pgstate" where
  "pg_statement q s =
     (if pg_failed s then (Throw aborted, s)
      else case pg_tx s of
             None \<Rightarrow>
               (case pg_run (pg_now s) q (pg_committed s) of
                  Throw msg \<Rightarrow> (Throw msg, s)
                | Normal (r, t') \<Rightarrow> (Normal r, s\<lparr>pg_committed := t'\<rparr>))
           | Some w \<Rightarrow>
               (case pg_run (pg_now s) q w of
                  Throw msg \<Rightarrow> (Throw msg, s\<lparr>pg_failed := True\<rparr>)
                | Normal (r, w') \<Rightarrow> (Normal r, s\<lparr>pg_tx := Some w'\<rparr>)))"

fun pg :: "pgstate client" where
  "pg BEGIN s =
     (if pg_failed s then (Throw aborted, s)
      else (Normal ([], 0), (case pg_tx s of None \<Rightarrow> s\<lparr>pg_tx := Some (pg_committed s)\<rparr> | Some w \<Rightarrow> s)))"
| "pg COMMIT s =
     (Normal ([], 0),
      (case pg_tx s of
         None \<Rightarrow> s
       | Some w \<Rightarrow> if pg_failed s then s\<lparr>pg_tx := None, pg_failed := False\<rparr>
                   else s\<lparr>pg_committed := w, pg_tx := None\<rparr>))"
| "pg ROLLBACK s = (Normal ([], 0), s\<lparr>pg_tx := None, pg_failed := False\<rparr>)"
| "pg q s = pg_statement q s"

declare pg.simps [simp del]

text \<open>A session that has no transaction block open.\<close>

definition idle :: "pgstate \<Rightarrow> bool" where
  "idle s \<longleftrightarrow> pg_tx s = None \<and> \<not> pg_failed s"

text \<open>
  Another session deletes the article \<open>k\<close> and commits while this one is between two
  statements. This session reads committed rows (READ COMMITTED), so its next statement
  no longer finds the article. \<open>pg_raced k\<close> is the session in which that happens
  right after each \<open>SELECT \<dots> FROM news\<close> of this session.
\<close>

definition rival_delete :: "int \<Rightarrow> tables \<Rightarrow> tables" where
  "rival_delete k t = t\<lparr>t_news := filter (\<lambda>r. n_news_id r \<noteq> k) (t_news t)\<rparr>"

definition pg_raced :: "int \<Rightarrow> pgstate client" where
  "pg_raced k q s =
     (case pg q s of
        (r, s') \<Rightarrow>
          (r, (case q of
                 SELECT_news _ \<Rightarrow>
                   s'\<lparr>pg_committed := rival_delete k (pg_committed s'),
                      pg_tx := map_option (rival_delete k) (pg_tx s')\<rparr>
               | _ \<Rightarrow> s')))"


section \<open>A write on a PostgreSQL session\<close>

text \<open>
  This section runs the two write handlers on the session \<open>pg\<close>, statement by
  statement, and names what a write that is answered 201 or 200 has committed. The
  lemmas hold for every request, environment and session state.
\<close>

lemma bindE_Normal:
  "bindE m f s = (Normal y, s'') \<longleftrightarrow> (\<exists>x s'. m s = (Normal x, s') \<and> f x s' = (Normal y, s''))"
  by (auto simp: bindE_def split: prod.splits completion.splits)

lemma returnE_Normal: "returnE x s = (Normal y, s') \<longleftrightarrow> y = x \<and> s' = s"
  by (auto simp: returnE_def)

lemma throwE_Normal: "throwE m s = (Normal y, s') \<longleftrightarrow> False"
  by (simp add: throwE_def)

lemma pg_in_tx:
  "\<not> pg_failed s \<Longrightarrow> q \<noteq> BEGIN \<Longrightarrow> q \<noteq> COMMIT \<Longrightarrow> q \<noteq> ROLLBACK \<Longrightarrow>
   pg q (s\<lparr>pg_tx := Some w\<rparr>) =
     (case pg_run (pg_now s) q w of
        Throw msg \<Rightarrow> (Throw msg, s\<lparr>pg_tx := Some w, pg_failed := True\<rparr>)
      | Normal (r, w') \<Rightarrow> (Normal r, s\<lparr>pg_tx := Some w'\<rparr>))"
  by (cases q) (auto simp: pg.simps pg_statement_def split: completion.splits)

lemma pg_commit_in_tx:
  "\<not> pg_failed s \<Longrightarrow> pg COMMIT (s\<lparr>pg_tx := Some w\<rparr>) = (Normal ([], 0), s\<lparr>pg_committed := w, pg_tx := None\<rparr>)"
  by (simp add: pg.simps)

lemma pg_rollback:
  "pg ROLLBACK s = (Normal ([], 0), s\<lparr>pg_tx := None, pg_failed := False\<rparr>)"
  by (simp add: pg.simps)

lemma pg_begin_idle:
  "idle s \<Longrightarrow> pg BEGIN s = (Normal ([], 0), s\<lparr>pg_tx := Some (pg_committed s)\<rparr>)"
  by (simp add: pg.simps idle_def)

definition coercible :: "jsval \<Rightarrow> bool" where
  "coercible c = (case as_pg_int c of PgInt n \<Rightarrow> True | _ \<Rightarrow> False)"

definition the_int :: "jsval \<Rightarrow> int" where
  "the_int c = (case as_pg_int c of PgInt n \<Rightarrow> n | _ \<Rightarrow> 0)"

definition category_links :: "int \<Rightarrow> int \<Rightarrow> jsval list \<Rightarrow> category_link list" where
  "category_links k p ids =
     map (\<lambda>c. \<lparr>nc_news_id = k, nc_category_id = the_int c, nc_is_primary = is_number p c\<rparr>) ids"

lemma as_pg_int_of_int: "as_pg_int (JNum (of_int k)) = PgInt k"
  by (simp add: as_pg_int_def)

lemma pg_insert_category:
  "\<not> pg_failed s \<Longrightarrow>
   (pg (INSERT_news_categories (JNum (of_int k)) c prim) (s\<lparr>pg_tx := Some w\<rparr>) = (Normal x, s')) \<longleftrightarrow>
   (coercible c \<and> x = ([], 1) \<and>
    s' = s\<lparr>pg_tx := Some (w\<lparr>t_news_categories := t_news_categories w @
              [\<lparr>nc_news_id = k, nc_category_id = the_int c, nc_is_primary = prim\<rparr>]\<rparr>)\<rparr>)"
  by (auto simp: pg_in_tx as_pg_int_of_int coercible_def the_int_def split: pg_int.splits)

lemma insert_categories_pg:
  "\<not> pg_failed s \<Longrightarrow>
   (insert_categories pg (JNum (of_int k)) p ids (s\<lparr>pg_tx := Some w\<rparr>) = (Normal (), s')) \<longleftrightarrow>
   (list_all coercible ids \<and>
    s' = s\<lparr>pg_tx := Some (w\<lparr>t_news_categories := t_news_categories w @ category_links k p ids\<rparr>)\<rparr>)"
proof (induction ids arbitrary: w s')
  case Nil
  then show ?case
    by (cases s) (auto simp: insert_categories_def returnE_def category_links_def)
next
  case (Cons c cs)
  have step: "insert_categories pg (JNum (of_int k)) p (c # cs) =
      bindE (pg (INSERT_news_categories (JNum (of_int k)) c (is_number p c)))
        (\<lambda>_. insert_categories pg (JNum (of_int k)) p cs)"
    by (auto simp: insert_categories_def Let_def bindE_def returnE_def fun_eq_iff
        split: prod.splits completion.splits)
  show ?case
    unfolding step
    by (auto simp: bindE_Normal pg_insert_category[OF Cons.prems] Cons.IH[OF Cons.prems]
        category_links_def)
qed


definition social_ok :: "jsval list \<Rightarrow> bool" where
  "social_ok links = list_all (\<lambda>l. case social_link_values l of Throw m \<Rightarrow> False | Normal v \<Rightarrow> True) links"

definition social_rows :: "int \<Rightarrow> jsval list \<Rightarrow> social_row list" where
  "social_rows k links =
     concat (map (\<lambda>l. case social_link_values l of
                          Normal (Some v) \<Rightarrow> [\<lparr>sm_news_id = k, sm_values = v\<rparr>]
                        | _ \<Rightarrow> []) links)"

definition parsed_links :: "env \<Rightarrow> string option \<Rightarrow> jsval list" where
  "parsed_links e field = (case safeJSON e field (JArr []) of JArr ls \<Rightarrow> ls | _ \<Rightarrow> [])"

lemma record_tx_same: "w' = w \<Longrightarrow> s\<lparr>pg_tx := Some w'\<rparr> = s\<lparr>pg_tx := Some w\<rparr>"
  by simp

lemma insert_social_link_pg:
  "\<not> pg_failed s \<Longrightarrow>
   (insert_social_link pg (JNum (of_int k)) l (s\<lparr>pg_tx := Some w\<rparr>) = (Normal (), s')) \<longleftrightarrow>
   (social_ok [l] \<and>
    s' = s\<lparr>pg_tx := Some (w\<lparr>t_news_social_media := t_news_social_media w @ social_rows k [l]\<rparr>)\<rparr>)"
proof (cases "social_link_values l")
  case (Throw m)
  then show ?thesis
    by (simp add: insert_social_link_def social_ok_def throwE_Normal)
next
  case (Normal v)
  assume nf: "\<not> pg_failed s"
  show ?thesis
  proof (cases v)
    case None
    with Normal show ?thesis
      by (auto simp: insert_social_link_def social_ok_def social_rows_def returnE_Normal)
  next
    case (Some vals)
    with Normal show ?thesis
      by (auto simp: insert_social_link_def social_ok_def social_rows_def bindE_Normal
          returnE_Normal pg_in_tx[OF nf] as_pg_int_of_int)
  qed
qed

lemma forEach_social_pg:
  "\<not> pg_failed s \<Longrightarrow>
   (forEach (insert_social_link pg (JNum (of_int k))) links (s\<lparr>pg_tx := Some w\<rparr>) = (Normal (), s')) \<longleftrightarrow>
   (social_ok links \<and>
    s' = s\<lparr>pg_tx := Some (w\<lparr>t_news_social_media := t_news_social_media w @ social_rows k links\<rparr>)\<rparr>)"
proof (induction links arbitrary: w s')
  case Nil
  then show ?case
    by (auto simp: returnE_def social_ok_def social_rows_def)
next
  case (Cons l ls)
  have ok: "social_ok (l # ls) \<longleftrightarrow> social_ok [l] \<and> social_ok ls"
    by (simp add: social_ok_def)
  have rows: "social_rows k (l # ls) = social_rows k [l] @ social_rows k ls"
    by (simp add: social_rows_def)
  show ?case
    by (auto simp: bindE_Normal insert_social_link_pg[OF Cons.prems] Cons.IH[OF Cons.prems] ok rows)
qed



lemma insert_social_links_pg:
  "\<not> pg_failed s \<Longrightarrow>
   (insert_social_links e pg (JNum (of_int k)) field (s\<lparr>pg_tx := Some w\<rparr>) = (Normal (), s')) \<longleftrightarrow>
   (social_ok (parsed_links e field) \<and>
    s' = s\<lparr>pg_tx := Some (w\<lparr>t_news_social_media :=
             t_news_social_media w @ social_rows k (parsed_links e field)\<rparr>)\<rparr>)"
proof (cases "safeJSON e field (JArr [])")
  case (JArr ls)
  assume "\<not> pg_failed s"
  with JArr show ?thesis
    by (simp add: insert_social_links_def parsed_links_def forEach_social_pg)
qed (auto simp: insert_social_links_def parsed_links_def returnE_Normal social_ok_def social_rows_def)

fun image_rows :: "int \<Rightarrow> (nat \<Rightarrow> jsval option) \<Rightarrow> nat \<Rightarrow> imgData list \<Rightarrow> image_row list" where
  "image_rows k md i [] = []"
| "image_rows k md i (img # rest) =
     \<lparr>img_news_id = k, img_values = image_values_at md i img\<rparr> # image_rows k md (Suc i) rest"

fun featured_after :: "(nat \<Rightarrow> jsval option) \<Rightarrow> nat \<Rightarrow> imgData list \<Rightarrow> string option \<Rightarrow> string option" where
  "featured_after md i [] f = f"
| "featured_after md i (img # rest) f =
     featured_after md (Suc i) rest
       (if truthy (isFeatured_at md i) \<and> falsy f then Some (im_url img) else f)"

lemma insert_images_loop_pg:
  "\<not> pg_failed s \<Longrightarrow>
   (insert_images_loop pg (JNum (of_int k)) md i imgs f (s\<lparr>pg_tx := Some w\<rparr>) = (Normal x, s')) \<longleftrightarrow>
   (x = featured_after md i imgs f \<and>
    s' = s\<lparr>pg_tx := Some (w\<lparr>t_news_images := t_news_images w @ image_rows k md i imgs\<rparr>)\<rparr>)"
proof (induction imgs arbitrary: w s' i f)
  case Nil
  then show ?case by (auto simp: returnE_def)
next
  case (Cons img rest)
  show ?case
    by (simp add: Let_def bindE_Normal pg_in_tx[OF Cons.prems] as_pg_int_of_int Cons.IH[OF Cons.prems])
qed


definition images_ok :: "env \<Rightarrow> write_request \<Rightarrow> bool" where
  "images_ok e req \<longleftrightarrow> rq_files req = [] \<or> processUploadedFiles e (rq_files req) \<noteq> None"

definition with_featured :: "int \<Rightarrow> string option \<Rightarrow> tables \<Rightarrow> tables" where
  "with_featured k featuredImageUrl w =
     (case featuredImageUrl of
        None \<Rightarrow> w
      | Some url \<Rightarrow>
          if url \<noteq> [] then update_news_where k (\<lambda>row. row\<lparr>n_image_url := Some url\<rparr>) w else w)"

definition with_images :: "env \<Rightarrow> write_request \<Rightarrow> int \<Rightarrow> tables \<Rightarrow> tables" where
  "with_images e req k w =
     (if rq_files req = [] then w
      else case processUploadedFiles e (rq_files req) of
             None \<Rightarrow> w
           | Some up \<Rightarrow>
               with_featured k (featured_after (metadataByIndex e (rq_other_fields req)) 0 up None)
                 (w\<lparr>t_news_images := t_news_images w @
                      image_rows k (metadataByIndex e (rq_other_fields req)) 0 up\<rparr>))"

lemma featured_update_pg:
  "\<not> pg_failed s \<Longrightarrow>
   ((case f of None \<Rightarrow> returnE ()
     | Some url \<Rightarrow> if url \<noteq> [] then bindE (pg (UPDATE_image_url url (JNum (of_int k)))) (\<lambda>_. returnE ())
                   else returnE ()) (s\<lparr>pg_tx := Some w\<rparr>) = (Normal (), s')) \<longleftrightarrow>
   (s' = s\<lparr>pg_tx := Some (with_featured k f w)\<rparr>)"
  by (cases f)
     (auto simp: with_featured_def returnE_Normal bindE_Normal pg_in_tx as_pg_int_of_int)

lemma insert_images_pg:
  assumes nf: "\<not> pg_failed s"
  shows "(insert_images e pg (JNum (of_int k)) req (s\<lparr>pg_tx := Some w\<rparr>) = (Normal (), s')) \<longleftrightarrow>
   (images_ok e req \<and> s' = s\<lparr>pg_tx := Some (with_images e req k w)\<rparr>)"
proof (cases "rq_files req = []")
  case True
  then show ?thesis
    by (auto simp: insert_images_def images_ok_def with_images_def returnE_Normal)
next
  case False
  show ?thesis
  proof (cases "processUploadedFiles e (rq_files req)")
    case None
    with False show ?thesis
      by (simp add: insert_images_def images_ok_def throwE_Normal)
  next
    case (Some up)
    with False show ?thesis
      by (simp add: insert_images_def images_ok_def with_images_def bindE_Normal
          insert_images_loop_pg[OF nf] featured_update_pg[OF nf])
  qed
qed

lemma logAdminActivity_pg:
  "\<not> pg_failed s \<Longrightarrow>
   logAdminActivity pg vals (s\<lparr>pg_tx := Some w\<rparr>) =
     (Normal (), s\<lparr>pg_tx := Some (w\<lparr>t_admin_activity_log := t_admin_activity_log w @ [vals]\<rparr>)\<rparr>)"
  by (simp add: logAdminActivity_def tryCatch_def bindE_def returnE_def pg_in_tx)


definition final_status :: "env \<Rightarrow> write_request \<Rightarrow> string" where
  "final_status e req =
     fst (publish_gate (canPublishDirectly e (rq_userRole req)) (with_default (rq_status req) ''draft''))"

definition requires_approval :: "env \<Rightarrow> write_request \<Rightarrow> bool" where
  "requires_approval e req =
     snd (publish_gate (canPublishDirectly e (rq_userRole req)) (with_default (rq_status req) ''draft''))"

definition created_row :: "env \<Rightarrow> write_request \<Rightarrow> string \<Rightarrow> string \<Rightarrow> int \<Rightarrow> int \<Rightarrow> int \<Rightarrow> news_row" where
  "created_row e req title content author p k =
     \<lparr>n_news_id = k, n_fields = changes_of e req title content p (final_status e req),
      n_author_id = author,
      n_published_at = (if final_status e req = ''published'' then Some (Date_now e) else None),
      n_quotes_data = None, n_image_url = None, n_updated_at = None\<rparr>"

definition with_quotes :: "int \<Rightarrow> quote list \<Rightarrow> tables \<Rightarrow> tables" where
  "with_quotes k qs w = update_news_where k (\<lambda>row. row\<lparr>n_quotes_data := Some qs\<rparr>) w"

definition created_tables ::
  "env \<Rightarrow> write_request \<Rightarrow> string \<Rightarrow> string \<Rightarrow> int \<Rightarrow> jsval list \<Rightarrow> int \<Rightarrow> tables \<Rightarrow> tables" where
  "created_tables e req title content author ids p w =
     (let k = t_news_seq w;
          w1 = w\<lparr>t_news := t_news w @ [created_row e req title content author p k],
                 t_news_seq := k + 1\<rparr>;
          w2 = w1\<lparr>t_news_categories := t_news_categories w1 @ category_links k p ids\<rparr>;
          w3 = (if extractQuotes content \<noteq> [] then with_quotes k (extractQuotes content) w2 else w2);
          w4 = w3\<lparr>t_news_social_media := t_news_social_media w3 @
                      social_rows k (parsed_links e (rq_social_media_links req))\<rparr>;
          w5 = with_images e req k w4
      in w5\<lparr>t_admin_activity_log := t_admin_activity_log w5 @
                [activity req ''create_post'' (JNum (of_int k)) title (final_status e req)
                   (requires_approval e req)]\<rparr>)"

definition created_response :: "env \<Rightarrow> write_request \<Rightarrow> string \<Rightarrow> int \<Rightarrow> write_response" where
  "created_response e req title k =
     \<lparr>wr_http = 201, wr_success = True,
      wr_message =
        (if requires_approval e req then ''Post created and submitted for approval''
         else if final_status e req = ''published'' then ''Post published successfully''
         else ''Draft created successfully''),
      wr_news_id = Some (JNum (of_int k)),
      wr_slug = Some (generateSlug e title),
      wr_status = Some (final_status e req),
      wr_requires_approval = Some (requires_approval e req)\<rparr>"

lemma quotes_step_pg:
  "\<not> pg_failed s \<Longrightarrow>
   (bindE (pg (UPDATE_quotes_data qs (JNum (of_int k)))) (\<lambda>_. returnE ()) (s\<lparr>pg_tx := Some w\<rparr>) =
      (Normal (), s')) \<longleftrightarrow>
   (s' = s\<lparr>pg_tx := Some (with_quotes k qs w)\<rparr>)"
  by (auto simp: with_quotes_def returnE_Normal bindE_Normal pg_in_tx as_pg_int_of_int)

lemma news_id_of_returned:
  "get_prop (returned_news row) ''news_id'' = JNum (of_int (n_news_id row))"
  "\<not> nullish (returned_news row)"
  by (simp_all add: get_prop_def returned_news_def nullish_def)


lemma create_persist_pg:
  assumes nf: "\<not> pg_failed s"
  shows "(create_persist e pg req title content author ids p (s\<lparr>pg_tx := Some w\<rparr>) = (Normal r, s')) \<longleftrightarrow>
   (list_all coercible ids \<and> social_ok (parsed_links e (rq_social_media_links req)) \<and>
    images_ok e req \<and> r = created_response e req title (t_news_seq w) \<and>
    s' = s\<lparr>pg_committed := created_tables e req title content author ids p w, pg_tx := None\<rparr>)"
  unfolding create_persist_def Let_def split_def
  by (auto simp add: bindE_Normal returnE_Normal pg_in_tx[OF nf] news_id_of_returned as_pg_int_of_int
        with_quotes_def insert_categories_pg[OF nf] quotes_step_pg[OF nf] insert_social_links_pg[OF nf]
        insert_images_pg[OF nf] logAdminActivity_pg[OF nf] pg_commit_in_tx[OF nf]
        created_tables_def created_response_def final_status_def requires_approval_def
        created_row_def Let_def)


definition category_ids_of :: "env \<Rightarrow> write_request \<Rightarrow> jsval list" where
  "category_ids_of e req =
     (case safeJSON e (rq_category_ids req) (JArr []) of JArr ids \<Rightarrow> ids | _ \<Rightarrow> [])"

definition primary_of :: "write_request \<Rightarrow> int" where
  "primary_of req = parseIntSafe (rq_primary_category_id req) 0"

definition categories_accepted :: "env \<Rightarrow> write_request \<Rightarrow> bool" where
  "categories_accepted e req \<longleftrightarrow>
     category_ids_of e req \<noteq> [] \<and> primary_of req \<noteq> 0 \<and>
     array_includes (category_ids_of e req) (primary_of req)"

definition create_accepts :: "env \<Rightarrow> write_request \<Rightarrow> bool" where
  "create_accepts e req \<longleftrightarrow>
     \<not> falsy (rq_title req) \<and> \<not> falsy (rq_content req) \<and> \<not> falsy (rq_category_ids req) \<and>
     \<not> falsy (rq_primary_category_id req) \<and> \<not> falsy (rq_author_id req) \<and>
     parseIntSafe (rq_author_id req) 0 \<noteq> 0 \<and> categories_accepted e req"

lemma idle_reset: "idle s \<Longrightarrow> s\<lparr>pg_tx := None, pg_failed := False\<rparr> = s"
  by (cases s) (simp add: idle_def)

lemma reject_pg:
  "idle s \<Longrightarrow> reject pg code msg (s\<lparr>pg_tx := Some w\<rparr>) = (Normal (failure code msg), s)"
  by (simp add: reject_def bindE_def returnE_def pg_rollback idle_reset)

lemma create_try_rejects:
  assumes "idle s" and "\<not> create_accepts e req"
  shows "\<exists>msg. create_try e pg req s = (Normal (failure 400 msg), s)"
  using assms
  by (cases "safeJSON e (rq_category_ids req) (JArr [])")
     (auto simp: create_try_def bindE_def pg_begin_idle reject_pg create_accepts_def Let_def
        categories_accepted_def category_ids_of_def primary_of_def)

lemma create_try_accepts:
  assumes "idle s" and "create_accepts e req"
  shows "create_try e pg req s =
     create_persist e pg req (with_default (rq_title req) []) (with_default (rq_content req) [])
       (parseIntSafe (rq_author_id req) 0) (category_ids_of e req) (primary_of req)
       (s\<lparr>pg_tx := Some (pg_committed s)\<rparr>)"
  using assms
  by (cases "safeJSON e (rq_category_ids req) (JArr [])")
     (auto simp: create_try_def bindE_def pg_begin_idle create_accepts_def Let_def
        categories_accepted_def category_ids_of_def primary_of_def)

lemma create_post_rejects:
  assumes "idle s" and "\<not> create_accepts e req"
  shows "\<exists>msg. create_post e pg req s = (Normal (failure 400 msg), s)"
proof -
  from create_try_rejects[OF assms] obtain msg where
    "create_try e pg req s = (Normal (failure 400 msg), s)" by blast
  then have "create_post e pg req s = (Normal (failure 400 msg), s)"
    by (simp add: create_post_def tryCatch_def)
  then show ?thesis by blast
qed

lemma create_post_created:
  assumes i: "idle s" and r: "create_post e pg req s = (Normal r, s')" and h: "wr_http r = 201"
  shows "create_accepts e req \<and>
    r = created_response e req (with_default (rq_title req) []) (t_news_seq (pg_committed s)) \<and>
    s' = s\<lparr>pg_committed :=
             created_tables e req (with_default (rq_title req) []) (with_default (rq_content req) [])
               (parseIntSafe (rq_author_id req) 0) (category_ids_of e req) (primary_of req)
               (pg_committed s),
           pg_tx := None\<rparr>"
proof (cases "create_accepts e req")
  case False
  from create_post_rejects[OF i False] r h show ?thesis by (auto simp: failure_def)
next
  case True
  from i have nf: "\<not> pg_failed s" by (simp add: idle_def)
  let ?m = "create_persist e pg req (with_default (rq_title req) []) (with_default (rq_content req) [])
       (parseIntSafe (rq_author_id req) 0) (category_ids_of e req) (primary_of req)
       (s\<lparr>pg_tx := Some (pg_committed s)\<rparr>)"
  show ?thesis
  proof (cases ?m)
    case (Pair out s1)
    show ?thesis
    proof (cases out)
      case (Throw m)
      with Pair r h show ?thesis
        by (auto simp: create_post_def tryCatch_def create_try_accepts[OF i True] bindE_def
            returnE_def failure_def pg_rollback)
    next
      case (Normal r1)
      with Pair r have "r1 = r" "s1 = s'"
        by (auto simp: create_post_def tryCatch_def create_try_accepts[OF i True])
      with Pair Normal have "?m = (Normal r, s')" by simp
      with True show ?thesis
        by (simp add: create_persist_pg[OF nf])
    qed
  qed
qed


definition update_accepts :: "env \<Rightarrow> write_request \<Rightarrow> bool" where
  "update_accepts e req \<longleftrightarrow>
     \<not> falsy (rq_title req) \<and> \<not> falsy (rq_content req) \<and> \<not> falsy (rq_category_ids req) \<and>
     \<not> falsy (rq_primary_category_id req) \<and> categories_accepted e req"

definition updated_tables ::
  "env \<Rightarrow> write_request \<Rightarrow> string \<Rightarrow> string \<Rightarrow> jsval list \<Rightarrow> int \<Rightarrow> int \<Rightarrow> int \<Rightarrow> tables \<Rightarrow> tables" where
  "updated_tables e req title content ids p k now w =
     (let w1 = update_news_where k
                 (apply_changes now (changes_of e req title content p (final_status e req))) w;
          w2 = w1\<lparr>t_news_categories :=
                    filter (\<lambda>r. nc_news_id r \<noteq> k) (t_news_categories w1) @ category_links k p ids\<rparr>;
          w3 = with_quotes k (extractQuotes content) w2;
          w4 = w3\<lparr>t_news_social_media :=
                    filter (\<lambda>r. sm_news_id r \<noteq> k) (t_news_social_media w3) @
                    social_rows k (parsed_links e (rq_social_media_links req))\<rparr>;
          w5 = with_images e req k w4
      in w5\<lparr>t_admin_activity_log := t_admin_activity_log w5 @
                [activity req ''update_post'' (JNum (of_int k)) title (final_status e req)
                   (requires_approval e req)]\<rparr>)"

definition updated_response :: "env \<Rightarrow> write_request \<Rightarrow> string \<Rightarrow> int \<Rightarrow> write_response" where
  "updated_response e req title k =
     \<lparr>wr_http = 200, wr_success = True,
      wr_message =
        (if requires_approval e req then ''Post updated and submitted for approval''
         else if final_status e req = ''published'' then ''Post updated successfully''
         else ''Draft updated successfully''),
      wr_news_id = Some (JNum (of_int k)),
      wr_slug = Some (generateSlug e title),
      wr_status = Some (final_status e req),
      wr_requires_approval = Some (requires_approval e req)\<rparr>"

lemma delete_where_links:
  "delete_where ''news_categories'' k w =
     Some (length (filter (\<lambda>r. nc_news_id r = k) (t_news_categories w)),
           w\<lparr>t_news_categories := filter (\<lambda>r. nc_news_id r \<noteq> k) (t_news_categories w)\<rparr>)"
  by (simp add: delete_where_def)

lemma delete_where_social:
  "delete_where ''news_social_media'' k w =
     Some (length (filter (\<lambda>r. sm_news_id r = k) (t_news_social_media w)),
           w\<lparr>t_news_social_media := filter (\<lambda>r. sm_news_id r \<noteq> k) (t_news_social_media w)\<rparr>)"
  by (simp add: delete_where_def)

lemma update_persist_pg:
  assumes nf: "\<not> pg_failed s"
  shows "(update_persist e pg (JNum (of_int k)) req title content ids p (s\<lparr>pg_tx := Some w\<rparr>) = (Normal r, s')) \<longleftrightarrow>
   (list_all coercible ids \<and> social_ok (parsed_links e (rq_social_media_links req)) \<and>
    images_ok e req \<and> r = updated_response e req title k \<and>
    s' = s\<lparr>pg_committed := updated_tables e req title content ids p k (pg_now s) w, pg_tx := None\<rparr>)"
  unfolding update_persist_def Let_def split_def
  by (auto simp add: bindE_Normal returnE_Normal pg_in_tx[OF nf] as_pg_int_of_int
        delete_where_links delete_where_social
        with_quotes_def insert_categories_pg[OF nf] insert_social_links_pg[OF nf]
        insert_images_pg[OF nf] logAdminActivity_pg[OF nf] pg_commit_in_tx[OF nf]
        updated_tables_def updated_response_def final_status_def requires_approval_def Let_def)


lemma pg_select_news:
  "\<not> pg_failed s \<Longrightarrow>
   pg (SELECT_news (JNum (of_int k))) (s\<lparr>pg_tx := Some w\<rparr>) =
     (Normal (map returned_news (filter (\<lambda>row. n_news_id row = k) (t_news w)), count_news k w),
      s\<lparr>pg_tx := Some w\<rparr>)"
  by (simp add: pg_in_tx as_pg_int_of_int)

lemma update_try_missing:
  assumes i: "idle s" and p: "parseInt params (Some 10) = Some k"
    and none: "filter (\<lambda>row. n_news_id row = k) (t_news (pg_committed s)) = []"
  shows "update_try e pg params req s = (Normal (failure 404 ''Post not found''), s)"
proof -
  from i have nf: "\<not> pg_failed s" by (simp add: idle_def)
  show ?thesis
    by (simp add: update_try_def param_id_def p bindE_def pg_begin_idle[OF i] pg_select_news[OF nf]
        reject_pg[OF i] none Let_def)
qed

lemma update_try_rejects:
  assumes i: "idle s" and p: "parseInt params (Some 10) = Some k"
    and some: "filter (\<lambda>row. n_news_id row = k) (t_news (pg_committed s)) \<noteq> []"
    and no: "\<not> update_accepts e req"
  shows "\<exists>msg. update_try e pg params req s = (Normal (failure 400 msg), s)"
proof -
  from i have nf: "\<not> pg_failed s" by (simp add: idle_def)
  show ?thesis
    using some no
    by (cases "safeJSON e (rq_category_ids req) (JArr [])")
       (auto simp: update_try_def param_id_def p bindE_def pg_begin_idle[OF i] pg_select_news[OF nf]
          reject_pg[OF i] update_accepts_def categories_accepted_def category_ids_of_def
          primary_of_def Let_def)
qed

lemma update_try_accepts:
  assumes i: "idle s" and p: "parseInt params (Some 10) = Some k"
    and some: "filter (\<lambda>row. n_news_id row = k) (t_news (pg_committed s)) \<noteq> []"
    and yes: "update_accepts e req"
  shows "update_try e pg params req s =
     update_persist e pg (JNum (of_int k)) req (with_default (rq_title req) [])
       (with_default (rq_content req) []) (category_ids_of e req) (primary_of req)
       (s\<lparr>pg_tx := Some (pg_committed s)\<rparr>)"
proof -
  from i have nf: "\<not> pg_failed s" by (simp add: idle_def)
  show ?thesis
    using some yes
    by (cases "safeJSON e (rq_category_ids req) (JArr [])")
       (auto simp: update_try_def param_id_def p bindE_def pg_begin_idle[OF i] pg_select_news[OF nf]
          update_accepts_def categories_accepted_def category_ids_of_def primary_of_def Let_def)
qed

lemma update_try_nan:
  assumes i: "idle s" and p: "parseInt params (Some 10) = None"
  shows "\<exists>msg s1. update_try e pg params req s = (Throw msg, s1)"
proof -
  from i have nf: "\<not> pg_failed s" by (simp add: idle_def)
  show ?thesis
    by (simp add: update_try_def param_id_def p bindE_def pg_begin_idle[OF i] pg_in_tx[OF nf]
        as_pg_int_def Let_def)
qed

lemma update_post_updated:
  assumes i: "idle s" and r: "update_post e pg params req s = (Normal r, s')" and h: "wr_http r = 200"
  shows "\<exists>k. parseInt params (Some 10) = Some k \<and>
    filter (\<lambda>row. n_news_id row = k) (t_news (pg_committed s)) \<noteq> [] \<and>
    update_accepts e req \<and>
    r = updated_response e req (with_default (rq_title req) []) k \<and>
    s' = s\<lparr>pg_committed :=
             updated_tables e req (with_default (rq_title req) []) (with_default (rq_content req) [])
               (category_ids_of e req) (primary_of req) k (pg_now s) (pg_committed s),
           pg_tx := None\<rparr>"
proof (cases "parseInt params (Some 10)")
  case None
  from update_try_nan[OF i None] obtain msg s1 where
    "update_try e pg params req s = (Throw msg, s1)" by blast
  with r h show ?thesis
    by (auto simp: update_post_def tryCatch_def bindE_def returnE_def failure_def pg_rollback)
next
  case (Some k)
  from i have nf: "\<not> pg_failed s" by (simp add: idle_def)
  show ?thesis
  proof (cases "filter (\<lambda>row. n_news_id row = k) (t_news (pg_committed s)) = []")
    case True
    from update_try_missing[OF i Some True] r h show ?thesis
      by (auto simp: update_post_def tryCatch_def failure_def)
  next
    case False
    show ?thesis
    proof (cases "update_accepts e req")
      case no: False
      from update_try_rejects[OF i Some False no] r h show ?thesis
        by (auto simp: update_post_def tryCatch_def failure_def)
    next
      case True
      let ?m = "update_persist e pg (JNum (of_int k)) req (with_default (rq_title req) [])
       (with_default (rq_content req) []) (category_ids_of e req) (primary_of req)
       (s\<lparr>pg_tx := Some (pg_committed s)\<rparr>)"
      show ?thesis
      proof (cases ?m)
        case (Pair out s1)
        show ?thesis
        proof (cases out)
          case (Throw m)
          with Pair r h show ?thesis
            by (auto simp: update_post_def tryCatch_def update_try_accepts[OF i Some False True]
                bindE_def returnE_def failure_def pg_rollback)
        next
          case (Normal r1)
          with Pair r have "r1 = r" "s1 = s'"
            by (auto simp: update_post_def tryCatch_def update_try_accepts[OF i Some False True])
          with Pair Normal have "?m = (Normal r, s')" by simp
          with True False Some show ?thesis
            by (simp add: update_persist_pg[OF nf])
        qed
      qed
    qed
  qed
qed


lemma update_news_where_frame [simp]:
  "t_news_categories (update_news_where k f w) = t_news_categories w"
  "t_news_images (update_news_where k f w) = t_news_images w"
  "t_news_social_media (update_news_where k f w) = t_news_social_media w"
  "t_news_seq (update_news_where k f w) = t_news_seq w"
  "t_admin_activity_log (update_news_where k f w) = t_admin_activity_log w"
  "t_news (update_news_where k f w) = map (\<lambda>row. if n_news_id row = k then f row else row) (t_news w)"
  by (simp_all add: update_news_where_def)

lemma with_featured_frame [simp]:
  "t_news_categories (with_featured k u w) = t_news_categories w"
  "t_news_images (with_featured k u w) = t_news_images w"
  "t_news_social_media (with_featured k u w) = t_news_social_media w"
  "t_admin_activity_log (with_featured k u w) = t_admin_activity_log w"
  by (simp_all add: with_featured_def split: option.splits)

lemma with_images_frame [simp]:
  "t_news_categories (with_images e req k w) = t_news_categories w"
  "t_news_social_media (with_images e req k w) = t_news_social_media w"
  "t_admin_activity_log (with_images e req k w) = t_admin_activity_log w"
  by (simp_all add: with_images_def split: option.splits)

lemma with_quotes_frame [simp]:
  "t_news_categories (with_quotes k qs w) = t_news_categories w"
  "t_news_images (with_quotes k qs w) = t_news_images w"
  "t_news_social_media (with_quotes k qs w) = t_news_social_media w"
  "t_admin_activity_log (with_quotes k qs w) = t_admin_activity_log w"
  by (simp_all add: with_quotes_def)

text \<open>What the later statements of a write leave of a row of \<open>news\<close>: its id, its
  fields and its publication time.\<close>

definition core :: "news_row \<Rightarrow> int \<times> news_changes \<times> int option" where
  "core row = (n_news_id row, n_fields row, n_published_at row)"

lemma core_with_featured [simp]: "map core (t_news (with_featured k u w)) = map core (t_news w)"
  by (auto simp: with_featured_def core_def split: option.splits)

lemma core_with_images [simp]: "map core (t_news (with_images e req k w)) = map core (t_news w)"
  by (simp add: with_images_def split: option.splits)

lemma core_with_quotes [simp]: "map core (t_news (with_quotes k qs w)) = map core (t_news w)"
  by (auto simp: with_quotes_def core_def)

lemma changes_status [simp]: "v_status (changes_of e req title content p st) = st"
  by (simp add: changes_of_def)


lemma created_core:
  "map core (t_news (created_tables e req title content author ids p w)) =
     map core (t_news w) @
     [(t_news_seq w, changes_of e req title content p (final_status e req),
       if final_status e req = ''published'' then Some (Date_now e) else None)]"
  by (simp add: created_tables_def Let_def created_row_def core_def)


lemma updated_core:
  "map core (t_news (updated_tables e req title content ids p k now w)) =
     map (\<lambda>row. if n_news_id row = k
                 then (k, changes_of e req title content p (final_status e req),
                       if final_status e req = ''published'' \<and> n_published_at row = None
                       then Some now else n_published_at row)
                 else core row) (t_news w)"
  by (simp add: updated_tables_def Let_def core_def apply_changes_def)

section \<open>Views of the tables\<close>

text \<open>The id and the status of every row of \<open>news\<close>.\<close>

definition statuses :: "tables \<Rightarrow> (int \<times> string) list" where
  "statuses t = map (\<lambda>row. (n_news_id row, v_status (n_fields row))) (t_news t)"

text \<open>The id and \<open>published_at\<close> of every row of \<open>news\<close>.\<close>

definition publications :: "tables \<Rightarrow> (int \<times> int option) list" where
  "publications t = map (\<lambda>row. (n_news_id row, n_published_at row)) (t_news t)"

text \<open>The id and the cover image (\<open>image_url\<close>) of every row of \<open>news\<close>.\<close>

definition covers :: "tables \<Rightarrow> (int \<times> string option) list" where
  "covers t = map (\<lambda>row. (n_news_id row, n_image_url row)) (t_news t)"


section \<open>Examples\<close>

text \<open>
  An environment for the examples: only the role \<open>admin\<close> may publish directly,
  \<open>JSON.parse\<close> is given on the three texts the examples send, the clock reads 2000,
  and every upload is stored under \<open>/uploads/\<close>.
\<close>

definition featured_sidecar :: string where
  "featured_sidecar = ''{'' @ [CHR 0x22] @ ''is_featured'' @ [CHR 0x22] @ '':true}''"

definition example_parse :: "string \<Rightarrow> jsval option" where
  "example_parse s =
     (if s = ''[3,7]'' then Some (JArr [JNum 3, JNum 7])
      else if s = ''[7,7]'' then Some (JArr [JNum 7, JNum 7])
      else if s = featured_sidecar then Some (JObj [(''is_featured'', JBool True)])
      else None)"

definition example_env :: env where
  "example_env =
     \<lparr>canPublishDirectly = (\<lambda>role. role = ''admin''),
      JSON_parse = example_parse,
      Date_now = 2000,
      processUploadedFiles =
        (\<lambda>files. Some (map (\<lambda>f. \<lparr>im_url = ''/uploads/'' @ f, im_originalname = f\<rparr>) files)),
      generateSlug = (\<lambda>title. title),
      calculateReadingTime = (\<lambda>content. 1),
      processContentFormatting = (\<lambda>content. content)\<rparr>"

text \<open>The request of an editor: the categories 3 and 7, 7 the primary one, to be
  published.\<close>

definition editor_request :: write_request where
  "editor_request =
     \<lparr>rq_title = Some ''Budget'', rq_content = Some ''x[QUOTE] hi [/QUOTE]'', rq_excerpt = None,
      rq_category_ids = Some ''[3,7]'', rq_primary_category_id = Some ''7'', rq_priority = None,
      rq_tags = None, rq_meta_description = None, rq_seo_keywords = None,
      rq_status = Some ''published'', rq_author_id = Some ''4'', rq_social_media_links = None,
      rq_other_fields = [], rq_files = [], rq_userRole = ''editor'', rq_adminId = JNum 4,
      rq_ip = ''10.0.0.1''\<rparr>"

text \<open>Two articles: 5, a draft, and 6, published at the time 1500.\<close>

definition stored :: "int \<Rightarrow> string \<Rightarrow> string \<Rightarrow> int option \<Rightarrow> news_row" where
  "stored k title status published =
     \<lparr>n_news_id = k,
      n_fields = \<lparr>v_title = title, v_slug = title, v_content = title, v_processed_content = title,
                  v_excerpt = title, v_category_id = 3, v_primary_category_id = 3,
                  v_priority = ''medium'', v_reading_time = 1, v_status = status, v_tags = None,
                  v_meta_description = None, v_seo_keywords = None\<rparr>,
      n_author_id = 4, n_published_at = published, n_quotes_data = None, n_image_url = None,
      n_updated_at = None\<rparr>"

definition two_articles :: tables where
  "two_articles =
     \<lparr>t_news = [stored 5 ''first'' ''draft'' None, stored 6 ''second'' ''published'' (Some 1500)],
      t_news_seq = 7,
      t_news_categories = [\<lparr>nc_news_id = 5, nc_category_id = 3, nc_is_primary = True\<rparr>,
                           \<lparr>nc_news_id = 6, nc_category_id = 3, nc_is_primary = True\<rparr>],
      t_news_social_media = [], t_news_images = [], t_admin_activity_log = [],
      t_other = map (\<lambda>n. (n, [])) (related_tables @ [''likes'', ''post_promotions''])\<rparr>"

definition session0 :: pgstate where
  "session0 = \<lparr>pg_committed = two_articles, pg_tx = None, pg_failed = False, pg_now = 3000\<rparr>"


text \<open>The same request from an admin; with two uploads; with two uploads and a sidecar
  that marks the second one featured; with the category 7 submitted twice; and with a
  primary category that is not among the submitted ones.\<close>

definition admin_request :: write_request where
  "admin_request = editor_request\<lparr>rq_userRole := ''admin''\<rparr>"





section \<open>Properties\<close>

subsection \<open>Quote extraction\<close>








subsection \<open>Trending score\<close>

lemma trending_score_young: "trending_score v l c s (Some (1 / 2)) = 3 * of_int (engagement v l c s)"
  by (simp add: trending_score_def decay_def)

lemma trending_score_old: "trending_score v l c s (Some 30) = (1 / 2) * of_int (engagement v l c s)"
  by (simp add: trending_score_def decay_def)

text \<open>
  C5, as the code has it. The score is the weighted sum of the counters (a NULL counter
  counting 0) times the multiplier of the age bracket. Two articles of the same
  engagement aged 0.5 h and 30 h score 3 times and 0.5 times that engagement; the
  younger one scores strictly higher when the engagement is positive.
\<close>

theorem trending_score_formula:
  "trending_score v l c s (Some h) =
     of_int (coalesce0 v * 1 + coalesce0 l * 5 + coalesce0 c * 10 + coalesce0 s * 15) *
     (if h < 1 then 3 else if h < 3 then 2 else if h < 6 then 15 / 10 else if h < 12 then 12 / 10
      else if h < 24 then 1 else if h < 48 then 5 / 10 else 2 / 10) \<and>
   (engagement v l c s = engagement v' l' c' s' \<longrightarrow>
      trending_score v l c s (Some (1 / 2)) = 3 * of_int (engagement v l c s) \<and>
      trending_score v' l' c' s' (Some 30) = (1 / 2) * of_int (engagement v l c s) \<and>
      (0 < engagement v l c s \<longrightarrow>
         trending_score v' l' c' s' (Some 30) < trending_score v l c s (Some (1 / 2))))"
proof -
  have "trending_score v l c s (Some h) =
     of_int (coalesce0 v * 1 + coalesce0 l * 5 + coalesce0 c * 10 + coalesce0 s * 15) *
     (if h < 1 then 3 else if h < 3 then 2 else if h < 6 then 15 / 10 else if h < 12 then 12 / 10
      else if h < 24 then 1 else if h < 48 then 5 / 10 else 2 / 10)"
    by (simp add: trending_score_def engagement_def decay_def)
  moreover have "engagement v l c s = engagement v' l' c' s' \<longrightarrow>
      trending_score v l c s (Some (1 / 2)) = 3 * of_int (engagement v l c s) \<and>
      trending_score v' l' c' s' (Some 30) = (1 / 2) * of_int (engagement v l c s) \<and>
      (0 < engagement v l c s \<longrightarrow>
         trending_score v' l' c' s' (Some 30) < trending_score v l c s (Some (1 / 2)))"
    by (simp add: trending_score_young trending_score_old)
  ultimately show ?thesis by blast
qed

theorem trending_score_formula_witness:
  "engagement (Some 10) None (Some 1) None = engagement (Some 5) None None (Some 1) \<and>
   0 < engagement (Some 10) None (Some 1) None \<and>
   trending_score (Some 10) None (Some 1) None (Some 7) = 24 \<and>
   trending_score (Some 10) None (Some 1) None (Some (1 / 2)) = 60 \<and>
   trending_score (Some 5) None None (Some 1) (Some 30) = 10 \<and>
   trending_score (Some 5) None None (Some 1) (Some 30)
     < trending_score (Some 10) None (Some 1) None (Some (1 / 2))"
proof -
  have e: "engagement (Some 10) None (Some 1) None = 20"
    "engagement (Some 5) None None (Some 1) = 20"
    by (simp_all add: engagement_def coalesce0_def)
  from trending_score_formula[of "Some 10" None "Some 1" None 7 "Some 5" None None "Some 1"]
  show ?thesis
    by (simp add: e coalesce0_def)
qed

text \<open>
  C5 as stated fails where the engagement is zero: two articles without any view, like,
  comment or share, aged 0.5 h and 30 h, both score 0, and the younger one is not ordered
  higher.
\<close>

theorem trending_score_tie_counterexample:
  "engagement (Some 0) (Some 0) (Some 0) (Some 0) = engagement (Some 0) (Some 0) (Some 0) (Some 0) \<and>
   \<not> trending_score (Some 0) (Some 0) (Some 0) (Some 0) (Some 30)
       < trending_score (Some 0) (Some 0) (Some 0) (Some 0) (Some (1 / 2))"
  by (simp add: trending_score_def engagement_def coalesce0_def)

subsection \<open>Page size of a surface\<close>

lemma surface_limit_absent: "surface_limit None = Some 50"
  by code_simp

lemma surface_limit_clamped:
  "s \<noteq> [] \<Longrightarrow> parseInt s None = Some n \<Longrightarrow> surface_limit (Some s) = Some (min 100 (max 1 n))"
  by (simp add: surface_limit_def or_default_def Math_max_def Math_min_def)

lemma surface_per_page:
  "run (surface_limit q_limit) (surface_offset (surface_page q_page) (surface_limit q_limit)) = Some r \<Longrightarrow>
   sr_per_page (breaking_get run q_page q_limit) = surface_limit q_limit"
  by (cases r) (simp add: breaking_get_def Let_def)

text \<open>
  C10 at the request \<^verbatim>\<open>?limit=abc\<close>. \<open>parseInt\<close> is \<open>NaN\<close>, and so are
  \<open>Math.max(1, NaN)\<close> and \<open>Math.min(100, NaN)\<close>: the page size handed to the query
  is \<open>NaN\<close>, not a number of the interval from 1 to 100. A datastore that rejects the
  parameter makes both surfaces answer 500 with \<open>per_page: 50\<close>.
\<close>

theorem surface_limit_not_a_number:
  "surface_limit (Some ''abc'') = None \<and>
   sr_http (breaking_get empty_surface None (Some ''abc'')) = 500 \<and>
   sr_per_page (breaking_get empty_surface None (Some ''abc'')) = Some 50 \<and>
   sr_http (pinned_get (\<lambda>c. empty_surface) None (Some ''abc'') None) = 500 \<and>
   sr_per_page (pinned_get (\<lambda>c. empty_surface) None (Some ''abc'') None) = Some 50"
  by code_simp

subsection \<open>Writing an article\<close>

lemma session0_idle: "idle session0"
  by (simp add: idle_def session0_def)

lemma statuses_core: "statuses t = map (\<lambda>(k, ch, pub). (k, v_status ch)) (map core (t_news t))"
  by (simp add: statuses_def core_def)

lemma publications_core: "publications t = map (\<lambda>(k, ch, pub). (k, pub)) (map core (t_news t))"
  by (simp add: publications_def core_def)

lemma gate_values:
  "final_status e req =
     (if with_default (rq_status req) ''draft'' = ''published'' \<and> \<not> canPublishDirectly e (rq_userRole req)
      then ''pending_approval'' else with_default (rq_status req) ''draft'')"
  "requires_approval e req \<longleftrightarrow>
     with_default (rq_status req) ''draft'' = ''published'' \<and> \<not> canPublishDirectly e (rq_userRole req)"
  by (simp_all add: final_status_def requires_approval_def publish_gate_def)

lemma created_facts:
  assumes "idle s" and "fst (create_post e pg req s) = Normal r" and "wr_http r = 201"
  shows "create_accepts e req"
    and "r = created_response e req (with_default (rq_title req) []) (t_news_seq (pg_committed s))"
    and "pg_committed (snd (create_post e pg req s)) =
           created_tables e req (with_default (rq_title req) []) (with_default (rq_content req) [])
             (parseIntSafe (rq_author_id req) 0) (category_ids_of e req) (primary_of req)
             (pg_committed s)"
proof -
  from assms(2) have "create_post e pg req s = (Normal r, snd (create_post e pg req s))"
    by (simp add: prod_eq_iff)
  from create_post_created[OF assms(1) this assms(3)]
  show "create_accepts e req"
    and "r = created_response e req (with_default (rq_title req) []) (t_news_seq (pg_committed s))"
    and "pg_committed (snd (create_post e pg req s)) =
           created_tables e req (with_default (rq_title req) []) (with_default (rq_content req) [])
             (parseIntSafe (rq_author_id req) 0) (category_ids_of e req) (primary_of req)
             (pg_committed s)"
    by simp_all
qed

lemma updated_facts:
  assumes "idle s" and "fst (update_post e pg params req s) = Normal r" and "wr_http r = 200"
  shows "\<exists>k. parseInt params (Some 10) = Some k \<and>
    filter (\<lambda>row. n_news_id row = k) (t_news (pg_committed s)) \<noteq> [] \<and>
    update_accepts e req \<and>
    r = updated_response e req (with_default (rq_title req) []) k \<and>
    pg_committed (snd (update_post e pg params req s)) =
      updated_tables e req (with_default (rq_title req) []) (with_default (rq_content req) [])
        (category_ids_of e req) (primary_of req) k (pg_now s) (pg_committed s)"
proof -
  from assms(2) have "update_post e pg params req s = (Normal r, snd (update_post e pg params req s))"
    by (simp add: prod_eq_iff)
  from update_post_updated[OF assms(1) this assms(3)] show ?thesis
    by auto
qed

text \<open>
  C1. A create that is answered 201 has added one row to \<open>news\<close>, and an update that
  is answered 200 has rewritten the rows of its article: in both, the status that is
  stored and reported is \<open>pending_approval\<close>, with \<open>requires_approval\<close> true, when
  the requested status is \<open>published\<close> and the role may not publish directly, and it
  is the requested status, with \<open>requires_approval\<close> false, in every other case.
  The requested status is \<open>draft\<close> when the request names none.
\<close>

theorem publish_gate_outcome:
  assumes "idle s"
  shows
    "(fst (create_post e pg req s) = Normal r \<and> wr_http r = 201 \<longrightarrow>
        wr_status r =
          Some (if with_default (rq_status req) ''draft'' = ''published'' \<and>
                   \<not> canPublishDirectly e (rq_userRole req)
                then ''pending_approval'' else with_default (rq_status req) ''draft'') \<and>
        wr_requires_approval r =
          Some (with_default (rq_status req) ''draft'' = ''published'' \<and>
                \<not> canPublishDirectly e (rq_userRole req)) \<and>
        statuses (pg_committed (snd (create_post e pg req s))) =
          statuses (pg_committed s) @
          [(t_news_seq (pg_committed s),
            if with_default (rq_status req) ''draft'' = ''published'' \<and>
               \<not> canPublishDirectly e (rq_userRole req)
            then ''pending_approval'' else with_default (rq_status req) ''draft'')]) \<and>
     (fst (update_post e pg params req s) = Normal r' \<and> wr_http r' = 200 \<longrightarrow>
        (\<exists>k. wr_news_id r' = Some (JNum (of_int k)) \<and>
           wr_status r' =
             Some (if with_default (rq_status req) ''draft'' = ''published'' \<and>
                      \<not> canPublishDirectly e (rq_userRole req)
                   then ''pending_approval'' else with_default (rq_status req) ''draft'') \<and>
           wr_requires_approval r' =
             Some (with_default (rq_status req) ''draft'' = ''published'' \<and>
                   \<not> canPublishDirectly e (rq_userRole req)) \<and>
           statuses (pg_committed (snd (update_post e pg params req s))) =
             map (\<lambda>(i, status).
                    (i, if i = k
                        then (if with_default (rq_status req) ''draft'' = ''published'' \<and>
                                 \<not> canPublishDirectly e (rq_userRole req)
                              then ''pending_approval'' else with_default (rq_status req) ''draft'')
                        else status))
               (statuses (pg_committed s))))"
proof (intro conjI impI)
  assume a: "fst (create_post e pg req s) = Normal r \<and> wr_http r = 201"
  note f = created_facts[OF assms conjunct1[OF a] conjunct2[OF a]]
  show "wr_status r =
          Some (if with_default (rq_status req) ''draft'' = ''published'' \<and>
                   \<not> canPublishDirectly e (rq_userRole req)
                then ''pending_approval'' else with_default (rq_status req) ''draft'')"
    by (simp add: f(2) created_response_def gate_values)
  show "wr_requires_approval r =
          Some (with_default (rq_status req) ''draft'' = ''published'' \<and>
                \<not> canPublishDirectly e (rq_userRole req))"
    by (simp add: f(2) created_response_def gate_values)
  show "statuses (pg_committed (snd (create_post e pg req s))) =
          statuses (pg_committed s) @
          [(t_news_seq (pg_committed s),
            if with_default (rq_status req) ''draft'' = ''published'' \<and>
               \<not> canPublishDirectly e (rq_userRole req)
            then ''pending_approval'' else with_default (rq_status req) ''draft'')]"
    by (simp add: f(3) statuses_core created_core gate_values)
next
  assume a: "fst (update_post e pg params req s) = Normal r' \<and> wr_http r' = 200"
  from updated_facts[OF assms conjunct1[OF a] conjunct2[OF a]] obtain k where
    r: "r' = updated_response e req (with_default (rq_title req) []) k"
    and t: "pg_committed (snd (update_post e pg params req s)) =
      updated_tables e req (with_default (rq_title req) []) (with_default (rq_content req) [])
        (category_ids_of e req) (primary_of req) k (pg_now s) (pg_committed s)"
    by blast
  have "wr_news_id r' = Some (JNum (of_int k))"
    by (simp add: r updated_response_def)
  moreover have "wr_status r' =
             Some (if with_default (rq_status req) ''draft'' = ''published'' \<and>
                      \<not> canPublishDirectly e (rq_userRole req)
                   then ''pending_approval'' else with_default (rq_status req) ''draft'')"
    by (simp add: r updated_response_def gate_values)
  moreover have "wr_requires_approval r' =
             Some (with_default (rq_status req) ''draft'' = ''published'' \<and>
                   \<not> canPublishDirectly e (rq_userRole req))"
    by (simp add: r updated_response_def gate_values)
  moreover have "statuses (pg_committed (snd (update_post e pg params req s))) =
             map (\<lambda>(i, status).
                    (i, if i = k
                        then (if with_default (rq_status req) ''draft'' = ''published'' \<and>
                                 \<not> canPublishDirectly e (rq_userRole req)
                              then ''pending_approval'' else with_default (rq_status req) ''draft'')
                        else status))
               (statuses (pg_committed s))"
    by (simp add: t statuses_core updated_core gate_values core_def)
  ultimately show "\<exists>k. wr_news_id r' = Some (JNum (of_int k)) \<and>
           wr_status r' =
             Some (if with_default (rq_status req) ''draft'' = ''published'' \<and>
                      \<not> canPublishDirectly e (rq_userRole req)
                   then ''pending_approval'' else with_default (rq_status req) ''draft'') \<and>
           wr_requires_approval r' =
             Some (with_default (rq_status req) ''draft'' = ''published'' \<and>
                   \<not> canPublishDirectly e (rq_userRole req)) \<and>
           statuses (pg_committed (snd (update_post e pg params req s))) =
             map (\<lambda>(i, status).
                    (i, if i = k
                        then (if with_default (rq_status req) ''draft'' = ''published'' \<and>
                                 \<not> canPublishDirectly e (rq_userRole req)
                              then ''pending_approval'' else with_default (rq_status req) ''draft'')
                        else status))
               (statuses (pg_committed s))"
    by blast
qed

text \<open>
  An editor, who may not publish directly, creates an article with the requested status
  \<open>published\<close>: it is stored as \<open>pending_approval\<close>. An admin updates the draft 5
  with the requested status \<open>published\<close>: it is stored as \<open>published\<close>.
\<close>

theorem publish_gate_outcome_witness:
  "fst (create_post example_env pg editor_request session0) =
     Normal \<lparr>wr_http = 201, wr_success = True,
             wr_message = ''Post created and submitted for approval'',
             wr_news_id = Some (JNum 7), wr_slug = Some ''Budget'',
             wr_status = Some ''pending_approval'', wr_requires_approval = Some True\<rparr> \<and>
   statuses (pg_committed (snd (create_post example_env pg editor_request session0))) =
     [(5, ''draft''), (6, ''published''), (7, ''pending_approval'')] \<and>
   fst (update_post example_env pg ''5'' admin_request session0) =
     Normal \<lparr>wr_http = 200, wr_success = True, wr_message = ''Post updated successfully'',
             wr_news_id = Some (JNum 5), wr_slug = Some ''Budget'',
             wr_status = Some ''published'', wr_requires_approval = Some False\<rparr> \<and>
   statuses (pg_committed (snd (update_post example_env pg ''5'' admin_request session0))) =
     [(5, ''published''), (6, ''published'')]"
proof -
  have c: "fst (create_post example_env pg editor_request session0) =
     Normal \<lparr>wr_http = 201, wr_success = True,
             wr_message = ''Post created and submitted for approval'',
             wr_news_id = Some (JNum 7), wr_slug = Some ''Budget'',
             wr_status = Some ''pending_approval'', wr_requires_approval = Some True\<rparr>"
    by code_simp
  have u: "fst (update_post example_env pg ''5'' admin_request session0) =
     Normal \<lparr>wr_http = 200, wr_success = True, wr_message = ''Post updated successfully'',
             wr_news_id = Some (JNum 5), wr_slug = Some ''Budget'',
             wr_status = Some ''published'', wr_requires_approval = Some False\<rparr>"
    by code_simp
  have old: "statuses (pg_committed session0) = [(5, ''draft''), (6, ''published'')]"
    "t_news_seq (pg_committed session0) = 7"
    by (simp_all add: statuses_def session0_def two_articles_def stored_def)
  have req: "with_default (rq_status editor_request) ''draft'' = ''published''"
    "\<not> canPublishDirectly example_env (rq_userRole editor_request)"
    "with_default (rq_status admin_request) ''draft'' = ''published''"
    "canPublishDirectly example_env (rq_userRole admin_request)"
    by (simp_all add: editor_request_def admin_request_def example_env_def with_default_def)
  from publish_gate_outcome[OF session0_idle, where e = example_env and req = editor_request
      and r = "\<lparr>wr_http = 201, wr_success = True,
             wr_message = ''Post created and submitted for approval'',
             wr_news_id = Some (JNum 7), wr_slug = Some ''Budget'',
             wr_status = Some ''pending_approval'', wr_requires_approval = Some True\<rparr>"] c
  have 1: "statuses (pg_committed (snd (create_post example_env pg editor_request session0))) =
     [(5, ''draft''), (6, ''published''), (7, ''pending_approval'')]"
    by (simp add: old req)
  from publish_gate_outcome[OF session0_idle, where e = example_env and req = admin_request
      and params = "''5''"
      and r' = "\<lparr>wr_http = 200, wr_success = True, wr_message = ''Post updated successfully'',
             wr_news_id = Some (JNum 5), wr_slug = Some ''Budget'',
             wr_status = Some ''published'', wr_requires_approval = Some False\<rparr>"] u
  have 2: "statuses (pg_committed (snd (update_post example_env pg ''5'' admin_request session0))) =
     [(5, ''published''), (6, ''published'')]"
    by (simp add: old req)
  from c u 1 2 show ?thesis by simp
qed




text \<open>
  C4. A create that is answered 201 has added a row whose \<open>published_at\<close> is the
  time of the request when the final status is \<open>published\<close> and is null otherwise.
  An update that is answered 200 has set \<open>published_at\<close> of its article to the
  time of the statement where the final status is \<open>published\<close> and the column was
  null, and has left every other \<open>published_at\<close> as it was.
\<close>

theorem published_at_set_once:
  assumes "idle s"
  shows
    "(fst (create_post e pg req s) = Normal r \<and> wr_http r = 201 \<longrightarrow>
        publications (pg_committed (snd (create_post e pg req s))) =
          publications (pg_committed s) @
          [(t_news_seq (pg_committed s),
            if wr_status r = Some ''published'' then Some (Date_now e) else None)]) \<and>
     (fst (update_post e pg params req s) = Normal r' \<and> wr_http r' = 200 \<longrightarrow>
        (\<exists>k. wr_news_id r' = Some (JNum (of_int k)) \<and>
           publications (pg_committed (snd (update_post e pg params req s))) =
             map (\<lambda>(i, published_at).
                    (i, if i = k \<and> wr_status r' = Some ''published'' \<and> published_at = None
                        then Some (pg_now s) else published_at))
               (publications (pg_committed s))))"
proof (intro conjI impI)
  assume a: "fst (create_post e pg req s) = Normal r \<and> wr_http r = 201"
  note f = created_facts[OF assms conjunct1[OF a] conjunct2[OF a]]
  show "publications (pg_committed (snd (create_post e pg req s))) =
          publications (pg_committed s) @
          [(t_news_seq (pg_committed s),
            if wr_status r = Some ''published'' then Some (Date_now e) else None)]"
    by (simp add: f(3) publications_core created_core) (simp add: f(2) created_response_def)
next
  assume a: "fst (update_post e pg params req s) = Normal r' \<and> wr_http r' = 200"
  from updated_facts[OF assms conjunct1[OF a] conjunct2[OF a]] obtain k where
    r: "r' = updated_response e req (with_default (rq_title req) []) k"
    and t: "pg_committed (snd (update_post e pg params req s)) =
      updated_tables e req (with_default (rq_title req) []) (with_default (rq_content req) [])
        (category_ids_of e req) (primary_of req) k (pg_now s) (pg_committed s)"
    by blast
  have "wr_news_id r' = Some (JNum (of_int k))"
    by (simp add: r updated_response_def)
  moreover have "publications (pg_committed (snd (update_post e pg params req s))) =
             map (\<lambda>(i, published_at).
                    (i, if i = k \<and> wr_status r' = Some ''published'' \<and> published_at = None
                        then Some (pg_now s) else published_at))
               (publications (pg_committed s))"
    by (simp add: t publications_core updated_core core_def r updated_response_def)
  ultimately show "\<exists>k. wr_news_id r' = Some (JNum (of_int k)) \<and>
           publications (pg_committed (snd (update_post e pg params req s))) =
             map (\<lambda>(i, published_at).
                    (i, if i = k \<and> wr_status r' = Some ''published'' \<and> published_at = None
                        then Some (pg_now s) else published_at))
               (publications (pg_committed s))"
    by blast
qed

text \<open>
  An admin creates a published article at the time 2000, and updates the article 6,
  published at the time 1500, at the time 3000: its \<open>published_at\<close> stays 1500.
\<close>

theorem published_at_set_once_witness:
  "fst (create_post example_env pg admin_request session0) =
     Normal \<lparr>wr_http = 201, wr_success = True, wr_message = ''Post published successfully'',
             wr_news_id = Some (JNum 7), wr_slug = Some ''Budget'',
             wr_status = Some ''published'', wr_requires_approval = Some False\<rparr> \<and>
   publications (pg_committed (snd (create_post example_env pg admin_request session0))) =
     [(5, None), (6, Some 1500), (7, Some 2000)] \<and>
   fst (update_post example_env pg ''6'' admin_request session0) =
     Normal \<lparr>wr_http = 200, wr_success = True, wr_message = ''Post updated successfully'',
             wr_news_id = Some (JNum 6), wr_slug = Some ''Budget'',
             wr_status = Some ''published'', wr_requires_approval = Some False\<rparr> \<and>
   publications (pg_committed (snd (update_post example_env pg ''6'' admin_request session0))) =
     [(5, None), (6, Some 1500)]"
proof -
  have c: "fst (create_post example_env pg admin_request session0) =
     Normal \<lparr>wr_http = 201, wr_success = True, wr_message = ''Post published successfully'',
             wr_news_id = Some (JNum 7), wr_slug = Some ''Budget'',
             wr_status = Some ''published'', wr_requires_approval = Some False\<rparr>"
    by code_simp
  have u: "fst (update_post example_env pg ''6'' admin_request session0) =
     Normal \<lparr>wr_http = 200, wr_success = True, wr_message = ''Post updated successfully'',
             wr_news_id = Some (JNum 6), wr_slug = Some ''Budget'',
             wr_status = Some ''published'', wr_requires_approval = Some False\<rparr>"
    by code_simp
  have old: "publications (pg_committed session0) = [(5, None), (6, Some 1500)]"
    "t_news_seq (pg_committed session0) = 7" "pg_now session0 = 3000"
    "Date_now example_env = 2000"
    by (simp_all add: publications_def session0_def two_articles_def stored_def example_env_def)
  from published_at_set_once[OF session0_idle, where e = example_env and req = admin_request
      and r = "\<lparr>wr_http = 201, wr_success = True, wr_message = ''Post published successfully'',
             wr_news_id = Some (JNum 7), wr_slug = Some ''Budget'',
             wr_status = Some ''published'', wr_requires_approval = Some False\<rparr>"] c
  have 1: "publications (pg_committed (snd (create_post example_env pg admin_request session0))) =
     [(5, None), (6, Some 1500), (7, Some 2000)]"
    by (simp add: old)
  from published_at_set_once[OF session0_idle, where e = example_env and req = admin_request
      and params = "''6''"
      and r' = "\<lparr>wr_http = 200, wr_success = True, wr_message = ''Post updated successfully'',
             wr_news_id = Some (JNum 6), wr_slug = Some ''Budget'',
             wr_status = Some ''published'', wr_requires_approval = Some False\<rparr>"] u
  have 2: "publications (pg_committed (snd (update_post example_env pg ''6'' admin_request session0))) =
     [(5, None), (6, Some 1500)]"
    by (simp add: old)
  from c u 1 2 show ?thesis by simp
qed








lemma covers_frame [simp]:
  "covers (with_quotes k qs w) = covers w"
  "covers (w\<lparr>t_news_categories := cs\<rparr>) = covers w"
  "covers (w\<lparr>t_news_social_media := ss\<rparr>) = covers w"
  "covers (w\<lparr>t_news_images := is\<rparr>) = covers w"
  "covers (w\<lparr>t_admin_activity_log := ls\<rparr>) = covers w"
  "covers (update_news_where k (apply_changes now ch) w) = covers w"
  by (auto simp: covers_def with_quotes_def apply_changes_def)











subsection \<open>Deleting articles\<close>

text \<open>
  With no rival session, the three handlers delete the article 5 and answer 200.
\<close>

lemma delete_unrivalled:
  "dr_http (case fst (delete_post pg ''5'' admin_request session0) of Normal r \<Rightarrow> r) = 200 \<and>
   dr_http (case fst (client_delete pg ''5'' admin_request session0) of Normal r \<Rightarrow> r) = 200 \<and>
   dr_http (case fst (delete_news pg ''5'' admin_request session0) of Normal r \<Rightarrow> r) = 200 \<and>
   map n_news_id (t_news (pg_committed (snd (delete_post pg ''5'' admin_request session0)))) = [6] \<and>
   map n_news_id (t_news (pg_committed (snd (client_delete pg ''5'' admin_request session0)))) = [6] \<and>
   map n_news_id (t_news (pg_committed (snd (delete_news pg ''5'' admin_request session0)))) = [6]"
  by code_simp

text \<open>
  C8, on a session in which another session deletes the article 5 after the handler has
  selected it. The select finds the row and the delete on \<open>news\<close> affects no row.
  The handler of routes/admin/categories.js and the one of routes/api/client.js answer
  200 with \<open>success: true\<close>; the first router of src/unnamed/part_001, which tests
  the row count, answers 500.
\<close>

theorem delete_reports_success_on_zero_rows:
  "fst (pg_raced 5 (SELECT_news (JStr ''5'')) (snd (pg_raced 5 BEGIN session0))) =
     Normal ([JObj [(''news_id'', JNum 5), (''title'', JStr ''first''), (''slug'', JStr ''first''),
                    (''status'', JStr ''draft''), (''author_id'', JNum 4),
                    (''image_url'', JNull)]], 1) \<and>
   fst (pg_raced 5 (DELETE_FROM ''news'' (JStr ''5''))
          (snd (pg_raced 5 (SELECT_news (JStr ''5'')) (snd (pg_raced 5 BEGIN session0))))) =
     Normal ([], 0) \<and>
   fst (delete_post (pg_raced 5) ''5'' admin_request session0) =
     Normal \<lparr>dr_http = 200, dr_success = True, dr_message = ''Post deleted successfully'',
             dr_deleted = None\<rparr> \<and>
   fst (client_delete (pg_raced 5) ''5'' admin_request session0) =
     Normal \<lparr>dr_http = 200, dr_success = True, dr_message = ''Article permanently deleted'',
             dr_deleted = Some 0\<rparr> \<and>
   fst (delete_news (pg_raced 5) ''5'' admin_request session0) =
     Normal \<lparr>dr_http = 500, dr_success = False, dr_message = ''Failed to delete news article'',
             dr_deleted = None\<rparr>"
  by code_simp

text \<open>
  A bulk delete of the article 5 and of the id 9999, which no article has: 5 is
  reported in \<open>success\<close> and is gone, 9999 is reported in \<open>failed\<close> as not found.
\<close>

lemma bulk_delete_missing_id:
  "fst (bulk_delete pg (JArr [JNum 5, JNum 9999]) admin_request session0) =
     Normal \<lparr>bk_http = 200, bk_success = True,
             bk_results = Some \<lparr>br_success = [(JNum 5, JStr ''first'')],
                                 br_failed = [(JNum 9999, ''Not found'')]\<rparr>\<rparr> \<and>
   map n_news_id (t_news (pg_committed
     (snd (bulk_delete pg (JArr [JNum 5, JNum 9999]) admin_request session0)))) = [6] \<and>
   fst (client_bulk_delete pg (JArr [JNum 5, JNum 9999]) admin_request session0) =
     Normal \<lparr>bk_http = 200, bk_success = True,
             bk_results = Some \<lparr>br_success = [(JNum 5, JStr ''first'')],
                                 br_failed = [(JNum 9999, ''Not found'')]\<rparr>\<rparr> \<and>
   map n_news_id (t_news (pg_committed
     (snd (client_bulk_delete pg (JArr [JNum 5, JNum 9999]) admin_request session0)))) = [6]"
  by code_simp

text \<open>
  C9, at a bulk delete of the article 5 and of the id \<^verbatim>\<open>abc\<close>. The select for
  \<^verbatim>\<open>abc\<close> is rejected, the loop records the id in \<open>failed\<close> and goes on, and both
  handlers answer 200 with 5 in \<open>success\<close>. The loop runs inside the one transaction
  of the request, which the rejected statement has aborted: the final \<open>COMMIT\<close>
  rolls it back, and the session is as it was before, the article 5 still stored.
\<close>

theorem bulk_delete_rolls_back_siblings:
  "fst (bulk_delete pg (JArr [JNum 5, JStr ''abc'']) admin_request session0) =
     Normal \<lparr>bk_http = 200, bk_success = True,
             bk_results = Some \<lparr>br_success = [(JNum 5, JStr ''first'')],
                                 br_failed = [(JStr ''abc'',
                                               ''invalid input syntax for type integer'')]\<rparr>\<rparr> \<and>
   snd (bulk_delete pg (JArr [JNum 5, JStr ''abc'']) admin_request session0) = session0 \<and>
   fst (client_bulk_delete pg (JArr [JNum 5, JStr ''abc'']) admin_request session0) =
     Normal \<lparr>bk_http = 200, bk_success = True,
             bk_results = Some \<lparr>br_success = [(JNum 5, JStr ''first'')],
                                 br_failed = [(JStr ''abc'',
                                               ''invalid input syntax for type integer'')]\<rparr>\<rparr> \<and>
   snd (client_bulk_delete pg (JArr [JNum 5, JStr ''abc'']) admin_request session0) = session0 \<and>
   map n_news_id (t_news (pg_committed session0)) = [5, 6]"
  by code_simp

end
